theory Spec2Isabelle
  imports Main
begin

section \<open>Values exchanged with the chain clients\<close>

text \<open>
  Addresses, hashes and hex strings are JavaScript strings; amounts, ids and block
  numbers are JavaScript \<open>bigint\<close>s, that is unbounded integers. A thrown value is
  an \<open>Error\<close> carrying its message.
\<close>

type_synonym Address = string
type_synonym Hash = string
type_synonym Hex = string
type_synonym bigint = int

datatype JsError = Error string

definition maxUint256 :: bigint where
  "maxUint256 = 2 ^ 256 - 1"

record TransactionReceipt =
  transactionHash :: Hash
  blockNumber :: bigint
  logs :: "string list"

record Chain =
  chainId :: nat
  chainName :: string

text \<open>
  \<open>SwapAndDepositData\<close> and its parts are declared in \<open>utils/peripheryAbi.ts\<close>; the
  fields are the ones \<open>executeSwapAndBridge\<close> copies into the call (lines 225-237) and
  \<open>executeSwapBridgeSwap\<close> fills in. The transfer type is the enum's numeric value. The
  fee recipient is named \<open>feeRecipient\<close> here, since a record field name is global.
\<close>

record SubmissionFees =
  amount :: bigint
  feeRecipient :: Address

record BaseDepositData =
  inputToken :: Address
  outputToken :: Hex
  outputAmount :: bigint
  depositor :: Address
  recipient :: Hex
  destinationChainId :: bigint
  exclusiveRelayer :: Hex
  quoteTimestamp :: bigint
  fillDeadline :: bigint
  exclusivityParameter :: bigint
  message :: Hex

record SwapAndDepositData =
  submissionFees :: SubmissionFees
  depositData :: BaseDepositData
  swapToken :: Address
  exchange :: Address
  transferType :: nat
  swapTokenAmount :: bigint
  minExpectedInputTokenAmount :: bigint
  routerCalldata :: Hex
  enableProportionalAdjustment :: bool
  spokePool :: Address
  nonce :: bigint

section \<open>Progress events\<close>

datatype Step = StepApprove | StepSwapAndBridge | StepFill

datatype Status = StatusIdle | StatusTxPending | StatusTxSuccess | StatusPending | StatusError

text \<open>
  \<open>ProgressMeta = ApproveMeta | SwapAndBridgeMeta | FillMeta | undefined\<close>:
  approval amount and spender; the submitted deposit data; the deposit id.
\<close>

datatype ProgressMeta =
    ApproveMeta bigint Address
  | SwapAndBridgeMeta SwapAndDepositData
  | FillMeta bigint
  | MetaUndefined

text \<open>
  The tagged union \<open>SwapAndBridgeProgress\<close>, one constructor per variant, the
  \<open>meta\<close> field last. A parsed log is \<open>None\<close> when the parser returns
  \<open>undefined\<close>. The error variant is only ever built by the spread
  \<open>{...currentProgress, status: "error", error, meta}\<close>: \<open>ProgressError prev e m\<close>
  is that object, \<open>prev\<close> being the object spread into it, whose \<open>step\<close> (and
  payload fields) it keeps.
\<close>

datatype SwapAndBridgeProgress =
    ApproveIdle
  | ApproveTxPending Hash ProgressMeta
  | ApproveTxSuccess TransactionReceipt ProgressMeta
  | SwapAndBridgeTxPending Hash ProgressMeta
  | SwapAndBridgeTxSuccess TransactionReceipt bigint "string option" ProgressMeta
  | FillPending ProgressMeta
  | FillTxSuccess TransactionReceipt bigint "bool option" "string option" ProgressMeta
  | ProgressError SwapAndBridgeProgress JsError ProgressMeta

fun step :: "SwapAndBridgeProgress \<Rightarrow> Step" where
  "step ApproveIdle = StepApprove"
| "step (ApproveTxPending _ _) = StepApprove"
| "step (ApproveTxSuccess _ _) = StepApprove"
| "step (SwapAndBridgeTxPending _ _) = StepSwapAndBridge"
| "step (SwapAndBridgeTxSuccess _ _ _ _) = StepSwapAndBridge"
| "step (FillPending _) = StepFill"
| "step (FillTxSuccess _ _ _ _ _) = StepFill"
| "step (ProgressError prev _ _) = step prev"

fun status :: "SwapAndBridgeProgress \<Rightarrow> Status" where
  "status ApproveIdle = StatusIdle"
| "status (ApproveTxPending _ _) = StatusTxPending"
| "status (ApproveTxSuccess _ _) = StatusTxSuccess"
| "status (SwapAndBridgeTxPending _ _) = StatusTxPending"
| "status (SwapAndBridgeTxSuccess _ _ _ _) = StatusTxSuccess"
| "status (FillPending _) = StatusPending"
| "status (FillTxSuccess _ _ _ _ _) = StatusTxSuccess"
| "status (ProgressError _ _ _) = StatusError"

fun meta :: "SwapAndBridgeProgress \<Rightarrow> ProgressMeta" where
  "meta ApproveIdle = MetaUndefined"
| "meta (ApproveTxPending _ m) = m"
| "meta (ApproveTxSuccess _ m) = m"
| "meta (SwapAndBridgeTxPending _ m) = m"
| "meta (SwapAndBridgeTxSuccess _ _ _ m) = m"
| "meta (FillPending m) = m"
| "meta (FillTxSuccess _ _ _ _ m) = m"
| "meta (ProgressError _ _ m) = m"

section \<open>The external collaborators\<close>

text \<open>
  \<open>encodeFunctionData\<close> turns a function call into call data. The call data is
  modelled by the call it encodes.
\<close>

datatype FunctionCall =
    Approve Address bigint
  | SwapAndBridge SwapAndDepositData

datatype Calldata = Encoded FunctionCall

record TxRequest =
  account :: "Address option"
  chain :: Chain
  to :: Address
  data :: Calldata
  txValue :: "bigint option"

text \<open>
  Each method of a client, and each function of the bridge SDK, is an oracle: given
  the arguments of the call it either throws (\<open>Inl\<close>) or returns (\<open>Inr\<close>).
  Every call site of \<open>executeSwapAndBridge\<close> runs at most once in a run, so an
  oracle per method covers every behaviour of a stateful client within one run.
\<close>

record ConfiguredWalletClient =
  walletAccount :: "Address option"
  sendTransaction :: "TxRequest \<Rightarrow> JsError + Hash"

record ConfiguredPublicClient =
  readContract :: "Address \<Rightarrow> string \<Rightarrow> Address list \<Rightarrow> JsError + bigint"
  simulateContract ::
    "Address \<Rightarrow> string \<Rightarrow> SwapAndDepositData \<Rightarrow> Address \<Rightarrow> bigint option \<Rightarrow> JsError + unit"
  waitForTransactionReceipt :: "Hash \<Rightarrow> JsError + TransactionReceipt"
  getBlockNumber :: "JsError + bigint"

text \<open>
  The imported functions. \<open>waitForDepositTx\<close> takes the origin chain id and the
  transaction hash and returns the deposit id and the receipt; \<open>waitForFillTx\<close>
  takes the deposit descriptor (origin chain id, destination chain id, destination
  spoke pool, message), the deposit id, the deposit transaction hash and the first
  block to scan, and returns the fill receipt, its timestamp and the
  \<open>actionSuccess\<close> flag (\<open>None\<close> for \<open>undefined\<close>). \<open>encodeThrows\<close> says when
  \<open>encodeFunctionData\<close> rejects its arguments.
\<close>

record Sdk =
  encodeThrows :: "FunctionCall \<Rightarrow> JsError option"
  waitForDepositTx :: "nat \<Rightarrow> Hash \<Rightarrow> JsError + (bigint \<times> TransactionReceipt)"
  parseDepositLogs :: "string list \<Rightarrow> JsError + string option"
  waitForFillTx ::
    "(nat \<times> nat \<times> Address \<times> Hex) \<Rightarrow> bigint \<Rightarrow> Hash \<Rightarrow> bigint
      \<Rightarrow> JsError + (TransactionReceipt \<times> bigint \<times> bool option)"
  parseFillLogs :: "string list \<Rightarrow> JsError + string option"

definition encodeFunctionData :: "Sdk \<Rightarrow> FunctionCall \<Rightarrow> JsError + Calldata" where
  "encodeFunctionData sdk c =
     (case encodeThrows sdk c of Some e \<Rightarrow> Inl e | None \<Rightarrow> Inr (Encoded c))"

section \<open>Parameters and result of \<open>executeSwapAndBridge\<close>\<close>

text \<open>
  An optional parameter is \<open>None\<close> when the caller leaves it out. The progress
  callback returns \<open>Inl e\<close> when it throws \<open>e\<close>.
\<close>

record ExecuteSwapAndBridgeParams =
  walletClient :: ConfiguredWalletClient
  originClient :: ConfiguredPublicClient
  destinationClient :: ConfiguredPublicClient
  originChain :: Chain
  destinationChain :: Chain
  userAddress :: Address
  swapAndDepositData :: SwapAndDepositData
  spokePoolPeripheryAddress :: Address
  destinationSpokePoolAddress :: Address
  isNative :: "bool option"
  infiniteApproval :: "bool option"
  skipAllowanceCheck :: "bool option"
  throwOnError :: "bool option"
  onProgress :: "(SwapAndBridgeProgress \<Rightarrow> JsError + unit) option"

record ExecuteSwapAndBridgeResponse =
  depositId :: "bigint option"
  swapAndBridgeTxReceipt :: "TransactionReceipt option"
  fillTxReceipt :: "TransactionReceipt option"
  error :: "JsError option"

text \<open>The defaults of the destructuring at lines 140-143.\<close>

definition isNativeOf :: "ExecuteSwapAndBridgeParams \<Rightarrow> bool" where
  "isNativeOf p = (case isNative p of None \<Rightarrow> False | Some b \<Rightarrow> b)"

definition infiniteApprovalOf :: "ExecuteSwapAndBridgeParams \<Rightarrow> bool" where
  "infiniteApprovalOf p = (case infiniteApproval p of None \<Rightarrow> False | Some b \<Rightarrow> b)"

definition skipAllowanceCheckOf :: "ExecuteSwapAndBridgeParams \<Rightarrow> bool" where
  "skipAllowanceCheckOf p = (case skipAllowanceCheck p of None \<Rightarrow> False | Some b \<Rightarrow> b)"

definition throwOnErrorOf :: "ExecuteSwapAndBridgeParams \<Rightarrow> bool" where
  "throwOnErrorOf p = (case throwOnError p of None \<Rightarrow> True | Some b \<Rightarrow> b)"

section \<open>State of a run\<close>

text \<open>
  The calls a run makes on its collaborators, with their arguments, in order.
\<close>

datatype ExternalCall =
    ReadContract Address string "Address list"
  | SendTransaction TxRequest
  | WaitForTransactionReceipt Hash
  | SimulateContract Address string SwapAndDepositData Address "bigint option"
  | WaitForDepositTx nat Hash
  | GetBlockNumber
  | WaitForFillTx "nat \<times> nat \<times> Address \<times> Hex" bigint Hash bigint

text \<open>
  The two local variables the function mutates, and what the run has done so far:
  \<open>delivered\<close> lists the arguments of the invocations of \<open>onProgressHandler\<close>,
  \<open>calls\<close> the external calls.
\<close>

record RunState =
  currentProgress :: SwapAndBridgeProgress
  currentProgressMeta :: ProgressMeta
  delivered :: "SwapAndBridgeProgress list"
  calls :: "ExternalCall list"

definition initialState :: RunState where
  "initialState =
     \<lparr>currentProgress = ApproveIdle, currentProgressMeta = MetaUndefined,
      delivered = [], calls = []\<rparr>"

text \<open>
  A computation either throws or returns, and leaves a state.
\<close>

type_synonym 'a Exec = "RunState \<Rightarrow> (JsError + 'a) \<times> RunState"

definition returnE :: "'a \<Rightarrow> 'a Exec" where
  "returnE x = (\<lambda>s. (Inr x, s))"

definition throwE :: "JsError \<Rightarrow> 'a Exec" where
  "throwE e = (\<lambda>s. (Inl e, s))"

definition bindE :: "'a Exec \<Rightarrow> ('a \<Rightarrow> 'b Exec) \<Rightarrow> 'b Exec" where
  "bindE m f = (\<lambda>s. case m s of (Inl e, s') \<Rightarrow> (Inl e, s') | (Inr x, s') \<Rightarrow> f x s')"

definition liftE :: "JsError + 'a \<Rightarrow> 'a Exec" where
  "liftE r = (\<lambda>s. (r, s))"

text \<open>\<open>await c r\<close>: the external call \<open>c\<close> is made and has the outcome \<open>r\<close>.\<close>

definition await :: "ExternalCall \<Rightarrow> JsError + 'a \<Rightarrow> 'a Exec" where
  "await c r = (\<lambda>s. (r, s\<lparr>calls := calls s @ [c]\<rparr>))"

definition setProgressMeta :: "ProgressMeta \<Rightarrow> unit Exec" where
  "setProgressMeta m = (\<lambda>s. (Inr (), s\<lparr>currentProgressMeta := m\<rparr>))"

text \<open>
  \<open>onProgressHandler\<close> is the caller's callback, or the logging default, which
  returns normally. \<open>Inl e\<close>: the handler throws \<open>e\<close>.
\<close>

definition onProgressHandler :: "ExecuteSwapAndBridgeParams \<Rightarrow> SwapAndBridgeProgress \<Rightarrow> JsError + unit" where
  "onProgressHandler p ev = (case onProgress p of None \<Rightarrow> Inr () | Some f \<Rightarrow> f ev)"

text \<open>
  \<open>currentProgress = {..., meta: currentProgressMeta}; onProgressHandler(currentProgress)\<close>:
  the variable is assigned, then the handler is invoked with the new object.
\<close>

definition report :: "ExecuteSwapAndBridgeParams \<Rightarrow> (ProgressMeta \<Rightarrow> SwapAndBridgeProgress) \<Rightarrow> unit Exec" where
  "report p mk =
     (\<lambda>s. let ev = mk (currentProgressMeta s)
          in (onProgressHandler p ev,
              s\<lparr>currentProgress := ev, delivered := delivered s @ [ev]\<rparr>))"

section \<open>\<open>executeSwapAndBridge\<close>\<close>

text \<open>Step 1 (lines 158-212): check the allowance and approve if necessary.\<close>

definition approvePhase :: "Sdk \<Rightarrow> ExecuteSwapAndBridgeParams \<Rightarrow> unit Exec" where
  "approvePhase sdk p =
     (let d = swapAndDepositData p; periphery = spokePoolPeripheryAddress p in
      if \<not> skipAllowanceCheckOf p \<and> \<not> isNativeOf p then
        bindE (await (ReadContract (swapToken d) ''allowance'' [userAddress p, periphery])
                 (readContract (originClient p) (swapToken d) ''allowance''
                    [userAddress p, periphery]))
          (\<lambda>allowance.
            if swapTokenAmount d > allowance then
              (let approvalAmount =
                     (if infiniteApprovalOf p then maxUint256 else swapTokenAmount d) in
               bindE (setProgressMeta (ApproveMeta approvalAmount periphery)) (\<lambda>_.
               bindE (liftE (encodeFunctionData sdk (Approve periphery approvalAmount)))
                 (\<lambda>approveCalldata.
               let req = \<lparr>account = walletAccount (walletClient p), chain = originChain p,
                          to = swapToken d, data = approveCalldata, txValue = None\<rparr> in
               bindE (await (SendTransaction req) (sendTransaction (walletClient p) req))
                 (\<lambda>approveTxHash.
               bindE (report p (ApproveTxPending approveTxHash)) (\<lambda>_.
               bindE (await (WaitForTransactionReceipt approveTxHash)
                        (waitForTransactionReceipt (originClient p) approveTxHash))
                 (\<lambda>approveTxReceipt.
               report p (ApproveTxSuccess approveTxReceipt)))))))
            else returnE ())
      else returnE ())"

text \<open>
  Step 2 (lines 214-299): encode, simulate, send, wait for the deposit. The inner
  \<open>try\<close> around the simulation rethrows what it catches. Returns the deposit id
  and the deposit receipt.
\<close>

definition swapAndBridgePhase ::
  "Sdk \<Rightarrow> ExecuteSwapAndBridgeParams \<Rightarrow> (bigint \<times> TransactionReceipt) Exec" where
  "swapAndBridgePhase sdk p =
     (let d = swapAndDepositData p; periphery = spokePoolPeripheryAddress p;
          val = (if isNativeOf p then Some (swapTokenAmount d) else None) in
      bindE (setProgressMeta (SwapAndBridgeMeta d)) (\<lambda>_.
      bindE (liftE (encodeFunctionData sdk (SwapAndBridge d))) (\<lambda>swapAndBridgeCalldata.
      bindE (await (SimulateContract periphery ''swapAndBridge'' d (userAddress p) val)
               (simulateContract (originClient p) periphery ''swapAndBridge'' d
                  (userAddress p) val))
        (\<lambda>_.
      let req = \<lparr>account = walletAccount (walletClient p), chain = originChain p,
                 to = periphery, data = swapAndBridgeCalldata, txValue = val\<rparr> in
      bindE (await (SendTransaction req) (sendTransaction (walletClient p) req))
        (\<lambda>swapAndBridgeTxHash.
      bindE (report p (SwapAndBridgeTxPending swapAndBridgeTxHash)) (\<lambda>_.
      bindE (await (WaitForDepositTx (chainId (originChain p)) swapAndBridgeTxHash)
               (waitForDepositTx sdk (chainId (originChain p)) swapAndBridgeTxHash))
        (\<lambda>(depositId', depositTxReceipt).
      bindE (liftE (parseDepositLogs sdk (logs depositTxReceipt))) (\<lambda>depositLog.
      bindE (report p (SwapAndBridgeTxSuccess depositTxReceipt depositId' depositLog)) (\<lambda>_.
      returnE (depositId', depositTxReceipt))))))))))"

text \<open>Step 3 (lines 301-338): wait for the fill on the destination chain.\<close>

definition fillPhase ::
  "Sdk \<Rightarrow> ExecuteSwapAndBridgeParams \<Rightarrow> bigint \<Rightarrow> TransactionReceipt \<Rightarrow> TransactionReceipt Exec" where
  "fillPhase sdk p depositId' depositTxReceipt =
     (let d = swapAndDepositData p;
          deposit = (chainId (originChain p), chainId (destinationChain p),
                     destinationSpokePoolAddress p, message (depositData d)) in
      bindE (setProgressMeta (FillMeta depositId')) (\<lambda>_.
      bindE (report p FillPending) (\<lambda>_.
      bindE (await GetBlockNumber (getBlockNumber (destinationClient p))) (\<lambda>destinationBlock.
      bindE (await (WaitForFillTx deposit depositId' (transactionHash depositTxReceipt)
                      (destinationBlock - 100))
               (waitForFillTx sdk deposit depositId' (transactionHash depositTxReceipt)
                  (destinationBlock - 100)))
        (\<lambda>(fillTxReceipt', fillTxTimestamp, actionSuccess).
      bindE (liftE (parseFillLogs sdk (logs fillTxReceipt'))) (\<lambda>fillLog.
      bindE (report p (FillTxSuccess fillTxReceipt' fillTxTimestamp actionSuccess fillLog)) (\<lambda>_.
      returnE fillTxReceipt')))))))"

text \<open>The body of the \<open>try\<close> (lines 157-344).\<close>

definition tryBlock :: "Sdk \<Rightarrow> ExecuteSwapAndBridgeParams \<Rightarrow> ExecuteSwapAndBridgeResponse Exec" where
  "tryBlock sdk p =
     bindE (approvePhase sdk p) (\<lambda>_.
     bindE (swapAndBridgePhase sdk p) (\<lambda>(depositId', depositTxReceipt).
     bindE (fillPhase sdk p depositId' depositTxReceipt) (\<lambda>fillTxReceipt'.
     returnE \<lparr>depositId = Some depositId', swapAndBridgeTxReceipt = Some depositTxReceipt,
              fillTxReceipt = Some fillTxReceipt', error = None\<rparr>)))"

text \<open>
  The \<open>catch\<close> (lines 345-359): the error event is built from the current progress
  and the current meta and handed to the callback; then the error is returned or
  thrown again. A throw of the callback here leaves the function.
\<close>

definition catchBlock ::
  "ExecuteSwapAndBridgeParams \<Rightarrow> JsError \<Rightarrow> ExecuteSwapAndBridgeResponse Exec" where
  "catchBlock p e =
     bindE (\<lambda>s. report p (ProgressError (currentProgress s) e) s) (\<lambda>_.
     if \<not> throwOnErrorOf p
     then returnE \<lparr>depositId = None, swapAndBridgeTxReceipt = None,
                   fillTxReceipt = None, error = Some e\<rparr>
     else throwE e)"

text \<open>
  A run: the outcome for the caller (\<open>Inl\<close>: the promise rejects) and the final
  state.
\<close>

definition executeSwapAndBridge ::
  "Sdk \<Rightarrow> ExecuteSwapAndBridgeParams \<Rightarrow> (JsError + ExecuteSwapAndBridgeResponse) \<times> RunState" where
  "executeSwapAndBridge sdk p =
     (case tryBlock sdk p initialState of
        (Inr r, s) \<Rightarrow> (Inr r, s)
      | (Inl e, s) \<Rightarrow> catchBlock p e s)"

section \<open>The update hook of the cross-chain message's swap action\<close>

text \<open>The constants of \<open>config.ts\<close> and \<open>config/swap-bridge.ts\<close> the hooks use.\<close>

definition kyberTokenIn :: Address where
  "kyberTokenIn = ''0xaf88d065e77c8cC2239327C5EDb3A432268e5831''"

definition kyberTokenOut :: Address where
  "kyberTokenOut = ''0x82aF49447D8a07e3bd95BD0d56f35241523fBab1''"

definition destinationChainName :: string where
  "destinationChainName = ''arbitrum''"

definition destinationSwapTokenIn :: Address where
  "destinationSwapTokenIn = ''0xaf88d065e77c8cC2239327C5EDb3A432268e5831''"

definition destinationSwapTokenOut :: Address where
  "destinationSwapTokenOut = ''0xEeeeeEeeeEeEeeEeEeEeeEEEeeeeEeeeeeeeEEeE''"

definition destinationSwapSlippageBps :: nat where
  "destinationSwapSlippageBps = 10"

text \<open>
  The two requests of \<open>generateSwapCallData\<close> (\<open>utils/transactions.ts\<close>) as oracles.
  \<open>getRoutes chain tokenIn tokenOut amountIn\<close> is the GET of the routes: \<open>Inr None\<close>
  is an empty response body, \<open>Inr (Some None)\<close> a body without \<open>data\<close>, and
  \<open>Inr (Some (Some r))\<close> a body with the route summary \<open>r\<close>.
  \<open>buildRoute chain routeSummary sender recipient\<close> is the POST that builds the
  route: \<open>Inr None\<close> is a body without \<open>data\<close>, \<open>Inr (Some (c, t))\<close> a body
  whose \<open>data\<close> and \<open>routerAddress\<close> are \<open>c\<close> and \<open>t\<close> (\<open>None\<close> when the
  field is missing). The amount travels as the decimal string of a \<open>bigint\<close>; the
  model passes the \<open>bigint\<close>.
\<close>

record KyberswapApi =
  getRoutes :: "string \<Rightarrow> Address \<Rightarrow> Address \<Rightarrow> bigint \<Rightarrow> JsError + string option option"
  buildRoute ::
    "string \<Rightarrow> string \<Rightarrow> Address \<Rightarrow> Address \<Rightarrow> JsError + (Hex option \<times> Address option) option"

text \<open>
  \<open>generateSwapCallData\<close>: reading a property of \<open>undefined\<close> throws a
  \<open>TypeError\<close>; an empty string is as falsy as a missing one; the \<open>catch\<close> logs
  and throws the same error again.
\<close>

definition generateSwapCallData ::
  "KyberswapApi \<Rightarrow> bigint \<Rightarrow> Address \<Rightarrow> Address \<Rightarrow> Address \<Rightarrow> Address \<Rightarrow> string \<Rightarrow> bool
     \<Rightarrow> JsError + (Hex \<times> Address option)" where
  "generateSwapCallData api amount' tokenIn tokenOut sender recipient' chain' initialQuote =
     (case getRoutes api chain' tokenIn tokenOut amount' of
        Inl e \<Rightarrow> Inl e
      | Inr None \<Rightarrow> Inl (Error ''No quote data returned'')
      | Inr (Some None) \<Rightarrow> Inl (Error ''TypeError'')
      | Inr (Some (Some routeSummary)) \<Rightarrow>
          (case buildRoute api chain' routeSummary sender recipient' of
             Inl e \<Rightarrow> Inl e
           | Inr None \<Rightarrow> Inl (Error ''TypeError'')
           | Inr (Some (None, to')) \<Rightarrow> Inl (Error ''No calldata data returned'')
           | Inr (Some (Some calldata, to')) \<Rightarrow>
               if calldata = [] then Inl (Error ''No calldata data returned'')
               else Inr (calldata, to')))"

text \<open>
  The \<open>update\<close> hook of the second action in \<open>executeSwap\<close> (lines 118-137):
  \<open>to'\<close> is the router address of the first quote, which the message's call data
  and target were built with.
\<close>

definition executeSwap_update :: "KyberswapApi \<Rightarrow> Address \<Rightarrow> Address option \<Rightarrow> bigint \<Rightarrow> JsError + Hex" where
  "executeSwap_update api user to' updatedOutputAmount =
     (case generateSwapCallData api updatedOutputAmount kyberTokenIn kyberTokenOut
             user user destinationChainName False of
        Inl e \<Rightarrow> Inl e
      | Inr (updatedCalldata, updatedTo) \<Rightarrow>
          if to' \<noteq> updatedTo then Inl (Error ''Swap contract address changed'')
          else Inr updatedCalldata)"

text \<open>
  The \<open>update\<close> hook of the second action in \<open>executeSwapBridgeSwap\<close> (lines
  396-415). It calls \<open>generateSwapCallData\<close> with eight arguments (a slippage
  before the sender) and the result has an \<open>amountOut\<close>: that version of the
  function is the parameter \<open>gen\<close>.
\<close>

definition executeSwapBridgeSwap_update ::
  "(bigint \<Rightarrow> Address \<Rightarrow> Address \<Rightarrow> nat \<Rightarrow> Address \<Rightarrow> Address \<Rightarrow> string \<Rightarrow> bool
      \<Rightarrow> JsError + (Hex \<times> Address option \<times> string))
     \<Rightarrow> Address \<Rightarrow> Address option \<Rightarrow> bigint \<Rightarrow> JsError + Hex" where
  "executeSwapBridgeSwap_update gen user destExchange updatedOutputAmount =
     (case gen updatedOutputAmount destinationSwapTokenIn destinationSwapTokenOut
             destinationSwapSlippageBps user user destinationChainName False of
        Inl e \<Rightarrow> Inl e
      | Inr (updatedCalldata, updatedTo, amountOut) \<Rightarrow>
          if destExchange \<noteq> updatedTo
          then Inl (Error ''Destination swap contract address changed'')
          else Inr updatedCalldata)"

section \<open>Vocabulary of the properties\<close>

text \<open>The pair that keys a progress event, and the order of the steps.\<close>

definition kind :: "SwapAndBridgeProgress \<Rightarrow> Step \<times> Status" where
  "kind ev = (step ev, status ev)"

fun stepIndex :: "Step \<Rightarrow> nat" where
  "stepIndex StepApprove = 0"
| "stepIndex StepSwapAndBridge = 1"
| "stepIndex StepFill = 2"

text \<open>The events of a run in which nothing fails and an approval is needed.\<close>

definition stateMachine :: "(Step \<times> Status) list" where
  "stateMachine =
     [(StepApprove, StatusTxPending), (StepApprove, StatusTxSuccess),
      (StepSwapAndBridge, StatusTxPending), (StepSwapAndBridge, StatusTxSuccess),
      (StepFill, StatusPending), (StepFill, StatusTxSuccess)]"

fun isPrefix :: "'a list \<Rightarrow> 'a list \<Rightarrow> bool" where
  "isPrefix [] ys = True"
| "isPrefix (x # xs) [] = False"
| "isPrefix (x # xs) (y # ys) = (x = y \<and> isPrefix xs ys)"

text \<open>Kinds of external calls.\<close>

fun isReadContract :: "ExternalCall \<Rightarrow> bool" where
  "isReadContract (ReadContract _ _ _) = True"
| "isReadContract _ = False"

fun sentCall :: "ExternalCall \<Rightarrow> FunctionCall option" where
  "sentCall (SendTransaction req) = (case data req of Encoded c \<Rightarrow> Some c)"
| "sentCall _ = None"

fun isApproveSend :: "ExternalCall \<Rightarrow> bool" where
  "isApproveSend c = (case sentCall c of Some (Approve _ _) \<Rightarrow> True | _ \<Rightarrow> False)"

fun isSwapAndBridgeSend :: "ExternalCall \<Rightarrow> bool" where
  "isSwapAndBridgeSend c = (case sentCall c of Some (SwapAndBridge _) \<Rightarrow> True | _ \<Rightarrow> False)"

text \<open>The \<open>error\<close> field of a progress event, when it has one.\<close>

fun errorOf :: "SwapAndBridgeProgress \<Rightarrow> JsError option" where
  "errorOf (ProgressError _ e _) = Some e"
| "errorOf _ = None"

text \<open>
  What the approval amount of a run has to be, said of one external call and of one
  progress event.
\<close>

definition approvalCallOk :: "ExecuteSwapAndBridgeParams \<Rightarrow> ExternalCall \<Rightarrow> bool" where
  "approvalCallOk p c =
     (\<forall>sp a. sentCall c = Some (Approve sp a) \<longrightarrow>
        sp = spokePoolPeripheryAddress p \<and>
        a = (if infiniteApprovalOf p then maxUint256
             else swapTokenAmount (swapAndDepositData p)))"

definition approvalEventOk :: "ExecuteSwapAndBridgeParams \<Rightarrow> SwapAndBridgeProgress \<Rightarrow> bool" where
  "approvalEventOk p ev =
     ((\<forall>a sp. meta ev = ApproveMeta a sp \<longrightarrow>
         sp = spokePoolPeripheryAddress p \<and>
         a = (if infiniteApprovalOf p then maxUint256
              else swapTokenAmount (swapAndDepositData p)))
      \<and> (step ev = StepApprove \<and> (status ev = StatusTxPending \<or> status ev = StatusTxSuccess) \<longrightarrow>
           meta ev = ApproveMeta
             (if infiniteApprovalOf p then maxUint256
              else swapTokenAmount (swapAndDepositData p))
             (spokePoolPeripheryAddress p)))"

text \<open>
  \<open>wp m Q E s\<close>: run from \<open>s\<close>, \<open>m\<close> returns in a state satisfying \<open>Q\<close> or throws
  in a state satisfying \<open>E\<close>. \<open>logCall\<close> and \<open>deliver\<close> are the two ways a run
  extends its state.
\<close>

definition wp ::
  "'a Exec \<Rightarrow> ('a \<Rightarrow> RunState \<Rightarrow> bool) \<Rightarrow> (JsError \<Rightarrow> RunState \<Rightarrow> bool) \<Rightarrow> RunState \<Rightarrow> bool" where
  "wp m Q E s = (case m s of (Inl e, t) \<Rightarrow> E e t | (Inr x, t) \<Rightarrow> Q x t)"

definition logCall :: "ExternalCall \<Rightarrow> RunState \<Rightarrow> RunState" where
  "logCall c s = s\<lparr>calls := calls s @ [c]\<rparr>"

definition deliver :: "SwapAndBridgeProgress \<Rightarrow> RunState \<Rightarrow> RunState" where
  "deliver ev s = s\<lparr>currentProgress := ev, delivered := delivered s @ [ev]\<rparr>"

section \<open>Concrete runs\<close>

text \<open>
  A swap of 0.002 WETH on Base, as \<open>executeSwapBridgeSwap\<close> sets it up, against
  collaborators that all succeed; the allowance read returns 0.
\<close>

definition exampleData :: SwapAndDepositData where
  "exampleData =
     \<lparr>submissionFees =
        \<lparr>amount = 0, feeRecipient = ''0x0000000000000000000000000000000000000000''\<rparr>,
      depositData =
        \<lparr>inputToken = ''0x833589fCD6eDb6E08f4c7C32D4f71b54bdA02913'',
         outputToken = ''0xaf88d065e77c8cC2239327C5EDb3A432268e5831'',
         outputAmount = 4900000, depositor = ''0xUser'', recipient = ''0xUser'',
         destinationChainId = 42161, exclusiveRelayer = ''0x00'',
         quoteTimestamp = 1700000000, fillDeadline = 1700003600,
         exclusivityParameter = 0, message = ''0xabcd''\<rparr>,
      swapToken = ''0x4200000000000000000000000000000000000006'',
      exchange = ''0xRouter'', transferType = 0,
      swapTokenAmount = 2000000000000000, minExpectedInputTokenAmount = 4950000,
      routerCalldata = ''0x1234'', enableProportionalAdjustment = True,
      spokePool = ''0x09aea4b2242abC8bb4BB78D537A67a245A7bEC64'', nonce = 7\<rparr>"

definition okWallet :: ConfiguredWalletClient where
  "okWallet =
     \<lparr>walletAccount = Some ''0xUser'',
      sendTransaction =
        (\<lambda>req. case data req of
                  Encoded (Approve _ _) \<Rightarrow> Inr ''0xApproveTx''
                | Encoded (SwapAndBridge _) \<Rightarrow> Inr ''0xDepositTx'')\<rparr>"

definition okClient :: ConfiguredPublicClient where
  "okClient =
     \<lparr>readContract = (\<lambda>_ _ _. Inr 0),
      simulateContract = (\<lambda>_ _ _ _ _. Inr ()),
      waitForTransactionReceipt =
        (\<lambda>h. Inr \<lparr>transactionHash = h, blockNumber = 100, logs = []\<rparr>),
      getBlockNumber = Inr 5000\<rparr>"

definition okSdk :: Sdk where
  "okSdk =
     \<lparr>encodeThrows = (\<lambda>_. None),
      waitForDepositTx =
        (\<lambda>_ h. Inr (42, \<lparr>transactionHash = h, blockNumber = 101, logs = [''deposit'']\<rparr>)),
      parseDepositLogs = (\<lambda>_. Inr (Some ''depositLog'')),
      waitForFillTx =
        (\<lambda>_ _ _ _. Inr (\<lparr>transactionHash = ''0xFillTx'', blockNumber = 4990,
                            logs = [''fill'']\<rparr>, 1700000100, Some True)),
      parseFillLogs = (\<lambda>_. Inr (Some ''fillLog''))\<rparr>"

definition okParams :: ExecuteSwapAndBridgeParams where
  "okParams =
     \<lparr>walletClient = okWallet, originClient = okClient, destinationClient = okClient,
      originChain = \<lparr>chainId = 8453, chainName = ''base''\<rparr>,
      destinationChain = \<lparr>chainId = 42161, chainName = ''arbitrum''\<rparr>,
      userAddress = ''0xUser'', swapAndDepositData = exampleData,
      spokePoolPeripheryAddress = ''0x89415a82d909a7238d69094c3dd1dcc1acbda85c'',
      destinationSpokePoolAddress = ''0xe35e9842fceaCA96570B734083f4a58e8F7C5f2A'',
      isNative = Some False, infiniteApproval = Some False,
      skipAllowanceCheck = Some False, throwOnError = None, onProgress = None\<rparr>"

text \<open>The same run with a simulation that reverts.\<close>

definition revertingClient :: ConfiguredPublicClient where
  "revertingClient =
     okClient\<lparr>simulateContract := (\<lambda>_ _ _ _ _. Inl (Error ''execution reverted''))\<rparr>"

text \<open>A callback that throws on every error event and on nothing else.\<close>

definition throwOnErrorEvent :: "SwapAndBridgeProgress \<Rightarrow> JsError + unit" where
  "throwOnErrorEvent ev =
     (if status ev = StatusError then Inl (Error ''callback failed'') else Inr ())"

text \<open>A callback that throws on \<open>swapAndBridge:txPending\<close> and on nothing else.\<close>

definition throwOnSubmitted :: "SwapAndBridgeProgress \<Rightarrow> JsError + unit" where
  "throwOnSubmitted ev =
     (if kind ev = (StepSwapAndBridge, StatusTxPending)
      then Inl (Error ''callback failed'') else Inr ())"

text \<open>The fill never arrives: the watcher gives up.\<close>

definition timeoutSdk :: Sdk where
  "timeoutSdk = okSdk\<lparr>waitForFillTx := (\<lambda>_ _ _ _. Inl (Error ''fill timeout''))\<rparr>"

text \<open>The inputs of the runs examined below.\<close>

definition revertedParams :: ExecuteSwapAndBridgeParams where
  "revertedParams = okParams\<lparr>originClient := revertingClient\<rparr>"

definition revertedNative :: ExecuteSwapAndBridgeParams where
  "revertedNative = okParams\<lparr>originClient := revertingClient, isNative := Some True\<rparr>"

definition revertedQuiet :: ExecuteSwapAndBridgeParams where
  "revertedQuiet = revertedNative\<lparr>throwOnError := Some False\<rparr>"

definition revertedThrowingCallback :: ExecuteSwapAndBridgeParams where
  "revertedThrowingCallback =
     revertedNative\<lparr>throwOnError := Some False, onProgress := Some throwOnErrorEvent\<rparr>"

definition nativeParams :: ExecuteSwapAndBridgeParams where
  "nativeParams = okParams\<lparr>isNative := Some True\<rparr>"

definition approvedParams :: ExecuteSwapAndBridgeParams where
  "approvedParams =
     okParams\<lparr>originClient := okClient\<lparr>readContract := (\<lambda>_ _ _. Inr 2000000000000000)\<rparr>\<rparr>"

definition approvedReverted :: ExecuteSwapAndBridgeParams where
  "approvedReverted =
     okParams\<lparr>originClient :=
       revertingClient\<lparr>readContract := (\<lambda>_ _ _. Inr 2000000000000000)\<rparr>\<rparr>"

definition infiniteParams :: ExecuteSwapAndBridgeParams where
  "infiniteParams = okParams\<lparr>infiniteApproval := Some True\<rparr>"

definition submittedThrowQuiet :: ExecuteSwapAndBridgeParams where
  "submittedThrowQuiet =
     nativeParams\<lparr>throwOnError := Some False, onProgress := Some throwOnSubmitted\<rparr>"

definition submittedThrow :: ExecuteSwapAndBridgeParams where
  "submittedThrow = nativeParams\<lparr>onProgress := Some throwOnSubmitted\<rparr>"

text \<open>A swap aggregator whose second quote names another router.\<close>

definition movedRouterApi :: KyberswapApi where
  "movedRouterApi =
     \<lparr>getRoutes = (\<lambda>_ _ _ _. Inr (Some (Some ''route''))),
      buildRoute = (\<lambda>_ _ _ _. Inr (Some (Some ''0xfeed'', Some ''0xNewRouter'')))\<rparr>"

definition movedRouterGen ::
  "bigint \<Rightarrow> Address \<Rightarrow> Address \<Rightarrow> nat \<Rightarrow> Address \<Rightarrow> Address \<Rightarrow> string \<Rightarrow> bool
     \<Rightarrow> JsError + (Hex \<times> Address option \<times> string)" where
  "movedRouterGen = (\<lambda>_ _ _ _ _ _ _ _. Inr (''0xfeed'', Some ''0xNewRouter'', ''1000''))"

section \<open>Running a computation symbolically\<close>

lemma wp_returnE: "wp (returnE x) Q E s = Q x s"
  by (simp add: wp_def returnE_def)

lemma wp_throwE: "wp (throwE e) Q E s = E e s"
  by (simp add: wp_def throwE_def)

lemma wp_bindE: "wp (bindE m f) Q E s = wp m (\<lambda>x. wp (f x) Q E) E s"
  by (simp add: wp_def bindE_def split: prod.splits sum.splits)

lemma wp_if:
  "wp (if c then a else b) Q E s = ((c \<longrightarrow> wp a Q E s) \<and> (\<not> c \<longrightarrow> wp b Q E s))"
  by simp

lemma wp_setProgressMeta: "wp (setProgressMeta m) Q E s = Q () (s\<lparr>currentProgressMeta := m\<rparr>)"
  by (simp add: wp_def setProgressMeta_def)

lemma wp_liftE:
  "wp (liftE r) Q E s = ((\<forall>e. r = Inl e \<longrightarrow> E e s) \<and> (\<forall>x. r = Inr x \<longrightarrow> Q x s))"
  by (simp add: wp_def liftE_def split: sum.splits)

lemma wp_await:
  "wp (await c r) Q E s =
     ((\<forall>e. r = Inl e \<longrightarrow> E e (logCall c s)) \<and> (\<forall>x. r = Inr x \<longrightarrow> Q x (logCall c s)))"
  by (simp add: wp_def await_def logCall_def split: sum.splits)

lemma wp_report:
  "wp (report p mk) Q E s =
     ((\<forall>e. onProgressHandler p (mk (currentProgressMeta s)) = Inl e
           \<longrightarrow> E e (deliver (mk (currentProgressMeta s)) s)) \<and>
      (onProgressHandler p (mk (currentProgressMeta s)) = Inr ()
           \<longrightarrow> Q () (deliver (mk (currentProgressMeta s)) s)))"
  by (simp add: wp_def report_def deliver_def Let_def split: sum.splits)

lemma wp_catchBlock:
  "wp (catchBlock p e) Q E s =
     (let ev = ProgressError (currentProgress s) e (currentProgressMeta s) in
      (\<forall>e'. onProgressHandler p ev = Inl e' \<longrightarrow> E e' (deliver ev s)) \<and>
      (onProgressHandler p ev = Inr () \<longrightarrow>
         (throwOnErrorOf p \<longrightarrow> E e (deliver ev s)) \<and>
         (\<not> throwOnErrorOf p \<longrightarrow>
            Q \<lparr>depositId = None, swapAndBridgeTxReceipt = None,
              fillTxReceipt = None, error = Some e\<rparr> (deliver ev s))))"
  by (simp add: wp_def catchBlock_def bindE_def report_def deliver_def returnE_def throwE_def
      Let_def split: sum.splits)

text \<open>A property of the outcome of a computation, and of a whole run, as a \<open>wp\<close>.\<close>

lemma exec_wp:
  "G (m s) = wp m (\<lambda>r t. G (Inr r, t)) (\<lambda>e t. G (Inl e, t)) s"
  by (cases "m s"; cases "fst (m s)") (simp_all add: wp_def)

lemma run_wp:
  "G (executeSwapAndBridge sdk p) =
     wp (tryBlock sdk p) (\<lambda>r s. G (Inr r, s))
        (\<lambda>e s. wp (catchBlock p e) (\<lambda>r t. G (Inr r, t)) (\<lambda>e' t. G (Inl e', t)) s)
        initialState"
proof (cases "tryBlock sdk p initialState")
  case (Pair a s)
  show ?thesis
  proof (cases a)
    case (Inl e)
    obtain b t where c: "catchBlock p e s = (b, t)"
      by (cases "catchBlock p e s")
    show ?thesis using Pair Inl c
      by (cases b) (simp_all add: executeSwapAndBridge_def wp_def)
  next
    case (Inr r)
    show ?thesis using Pair Inr
      by (simp add: executeSwapAndBridge_def wp_def)
  qed
qed

lemma state_simps:
  "delivered (deliver ev s) = delivered s @ [ev]"
  "delivered (logCall c s) = delivered s"
  "calls (deliver ev s) = calls s"
  "calls (logCall c s) = calls s @ [c]"
  "currentProgress (deliver ev s) = ev"
  "currentProgress (logCall c s) = currentProgress s"
  "currentProgressMeta (deliver ev s) = currentProgressMeta s"
  "currentProgressMeta (logCall c s) = currentProgressMeta s"
  by (simp_all add: deliver_def logCall_def)

lemma encodeFunctionData_Inr [simp]:
  "(encodeFunctionData sdk c = Inr x) = (encodeThrows sdk c = None \<and> x = Encoded c)"
  by (auto simp: encodeFunctionData_def split: option.splits)

lemma encodeFunctionData_Inl [simp]:
  "(encodeFunctionData sdk c = Inl e) = (encodeThrows sdk c = Some e)"
  by (auto simp: encodeFunctionData_def split: option.splits)

lemma approvePhase_skipped:
  "isNativeOf p \<or> skipAllowanceCheckOf p \<Longrightarrow> approvePhase sdk p = returnE ()"
  by (auto simp: approvePhase_def)

lemmas wp_simps = wp_returnE wp_throwE wp_bindE wp_if wp_setProgressMeta wp_liftE wp_await
  wp_report wp_catchBlock split_beta

lemmas run_simps = tryBlock_def approvePhase_def swapAndBridgePhase_def fillPhase_def
  wp_simps Let_def state_simps initialState_def

text \<open>The fields of the concrete inputs.\<close>

lemma okParams_fields:
  "walletClient okParams = okWallet"
  "originClient okParams = okClient"
  "destinationClient okParams = okClient"
  "originChain okParams = \<lparr>chainId = 8453, chainName = ''base''\<rparr>"
  "destinationChain okParams = \<lparr>chainId = 42161, chainName = ''arbitrum''\<rparr>"
  "userAddress okParams = ''0xUser''"
  "swapAndDepositData okParams = exampleData"
  "spokePoolPeripheryAddress okParams = ''0x89415a82d909a7238d69094c3dd1dcc1acbda85c''"
  "destinationSpokePoolAddress okParams = ''0xe35e9842fceaCA96570B734083f4a58e8F7C5f2A''"
  "isNative okParams = Some False"
  "infiniteApproval okParams = Some False"
  "skipAllowanceCheck okParams = Some False"
  "throwOnError okParams = None"
  "onProgress okParams = None"
  by (simp_all add: okParams_def)

lemma exampleData_fields:
  "swapToken exampleData = ''0x4200000000000000000000000000000000000006''"
  "swapTokenAmount exampleData = 2000000000000000"
  "message (depositData exampleData) = ''0xabcd''"
  by (simp_all add: exampleData_def)

lemma okWallet_fields:
  "walletAccount okWallet = Some ''0xUser''"
  "sendTransaction okWallet
     \<lparr>account = a1, chain = c1, to = t1, data = Encoded (Approve sp1 am1), txValue = v1\<rparr>
     = Inr ''0xApproveTx''"
  "sendTransaction okWallet
     \<lparr>account = a2, chain = c2, to = t2, data = Encoded (SwapAndBridge d2), txValue = v2\<rparr>
     = Inr ''0xDepositTx''"
  by (simp_all add: okWallet_def)

lemma okClient_fields:
  "readContract okClient r1 r2 r3 = Inr 0"
  "simulateContract okClient s1 s2 s3 s4 s5 = Inr ()"
  "waitForTransactionReceipt okClient h1
     = Inr \<lparr>transactionHash = h1, blockNumber = 100, logs = []\<rparr>"
  "getBlockNumber okClient = Inr 5000"
  by (simp_all add: okClient_def)

lemma revertingClient_fields:
  "readContract revertingClient r1 r2 r3 = Inr 0"
  "simulateContract revertingClient s1 s2 s3 s4 s5 = Inl (Error ''execution reverted'')"
  "waitForTransactionReceipt revertingClient h1
     = Inr \<lparr>transactionHash = h1, blockNumber = 100, logs = []\<rparr>"
  "getBlockNumber revertingClient = Inr 5000"
  by (simp_all add: revertingClient_def okClient_def)

lemma okSdk_fields:
  "encodeThrows okSdk c1 = None"
  "waitForDepositTx okSdk n1 h1
     = Inr (42, \<lparr>transactionHash = h1, blockNumber = 101, logs = [''deposit'']\<rparr>)"
  "parseDepositLogs okSdk l1 = Inr (Some ''depositLog'')"
  "waitForFillTx okSdk f1 f2 f3 f4
     = Inr (\<lparr>transactionHash = ''0xFillTx'', blockNumber = 4990, logs = [''fill'']\<rparr>,
            1700000100, Some True)"
  "parseFillLogs okSdk l2 = Inr (Some ''fillLog'')"
  by (simp_all add: okSdk_def)

lemma timeoutSdk_fields:
  "encodeThrows timeoutSdk c1 = None"
  "waitForDepositTx timeoutSdk n1 h1
     = Inr (42, \<lparr>transactionHash = h1, blockNumber = 101, logs = [''deposit'']\<rparr>)"
  "parseDepositLogs timeoutSdk l1 = Inr (Some ''depositLog'')"
  "waitForFillTx timeoutSdk f1 f2 f3 f4 = Inl (Error ''fill timeout'')"
  "parseFillLogs timeoutSdk l2 = Inr (Some ''fillLog'')"
  by (simp_all add: timeoutSdk_def okSdk_def)

lemmas example_simps = okParams_fields exampleData_fields okWallet_fields okClient_fields
  revertingClient_fields okSdk_fields timeoutSdk_fields isNativeOf_def
  skipAllowanceCheckOf_def infiniteApprovalOf_def throwOnErrorOf_def onProgressHandler_def
  throwOnErrorEvent_def throwOnSubmitted_def kind_def

section \<open>The order of the progress events\<close>

text \<open>
  C1. In every run of \<open>executeSwapAndBridge\<close> the events handed to the progress
  callback are in non-decreasing step order (approve, then swapAndBridge, then fill);
  the events that are not error events are an initial part of approve:txPending,
  approve:txSuccess, swapAndBridge:txPending, swapAndBridge:txSuccess, fill:pending,
  fill:txSuccess, or of that sequence without its two approve events, so that each
  pending event comes before the success event of its step; and an event with status
  error is the last event of the run.
\<close>

theorem C1_progress_order:
  "sorted (map (stepIndex \<circ> step) (delivered (snd (executeSwapAndBridge sdk p))))
   \<and> (isPrefix (map kind (filter (\<lambda>ev. status ev \<noteq> StatusError)
                   (delivered (snd (executeSwapAndBridge sdk p))))) stateMachine
      \<or> isPrefix (map kind (filter (\<lambda>ev. status ev \<noteq> StatusError)
                   (delivered (snd (executeSwapAndBridge sdk p))))) (drop 2 stateMachine))
   \<and> (\<forall>ev \<in> set (butlast (delivered (snd (executeSwapAndBridge sdk p)))).
         status ev \<noteq> StatusError)"
proof -
  define G where "G = (\<lambda>r :: (JsError + ExecuteSwapAndBridgeResponse) \<times> RunState.
     sorted (map (stepIndex \<circ> step) (delivered (snd r)))
     \<and> (isPrefix (map kind (filter (\<lambda>ev. status ev \<noteq> StatusError) (delivered (snd r))))
           stateMachine
        \<or> isPrefix (map kind (filter (\<lambda>ev. status ev \<noteq> StatusError) (delivered (snd r))))
           (drop 2 stateMachine))
     \<and> (\<forall>ev \<in> set (butlast (delivered (snd r))). status ev \<noteq> StatusError))"
  have "G (executeSwapAndBridge sdk p)"
    apply (subst run_wp)
    apply (simp add: run_simps split del: if_split)
    apply (simp add: G_def state_simps kind_def stateMachine_def split del: if_split)
    done
  then show ?thesis by (simp add: G_def)
qed

text \<open>
  A run whose fill never arrives delivers the five events up to fill:pending and
  then the error event.
\<close>

lemma timeout_run_kinds:
  "map kind (delivered (snd (executeSwapAndBridge timeoutSdk okParams))) =
     [(StepApprove, StatusTxPending), (StepApprove, StatusTxSuccess),
      (StepSwapAndBridge, StatusTxPending), (StepSwapAndBridge, StatusTxSuccess),
      (StepFill, StatusPending), (StepFill, StatusError)]"
proof -
  define G where "G = (\<lambda>r :: (JsError + ExecuteSwapAndBridgeResponse) \<times> RunState.
     map kind (delivered (snd r)) =
       [(StepApprove, StatusTxPending), (StepApprove, StatusTxSuccess),
        (StepSwapAndBridge, StatusTxPending), (StepSwapAndBridge, StatusTxSuccess),
        (StepFill, StatusPending), (StepFill, StatusError)])"
  have "G (executeSwapAndBridge timeoutSdk okParams)"
    apply (subst run_wp)
    apply (simp add: run_simps example_simps)
    apply (simp add: G_def state_simps kind_def)
    done
  then show ?thesis by (simp add: G_def)
qed

theorem C1_progress_order_witness:
  "map kind (delivered (snd (executeSwapAndBridge timeoutSdk okParams))) =
     [(StepApprove, StatusTxPending), (StepApprove, StatusTxSuccess),
      (StepSwapAndBridge, StatusTxPending), (StepSwapAndBridge, StatusTxSuccess),
      (StepFill, StatusPending), (StepFill, StatusError)]
   \<and> sorted (map (stepIndex \<circ> step) (delivered (snd (executeSwapAndBridge timeoutSdk okParams))))
   \<and> list_all (\<lambda>ev. status ev \<noteq> StatusError)
        (butlast (delivered (snd (executeSwapAndBridge timeoutSdk okParams))))"
  using C1_progress_order [of timeoutSdk okParams] timeout_run_kinds
  by (simp add: list_all_iff)

section \<open>A simulation that fails\<close>

text \<open>
  What every run does in which the simulation of the swapAndBridge call is made and
  throws: no swapAndBridge transaction is sent, and exactly one error event is
  delivered, the last one, with the error of the simulation and the swapAndBridge
  meta. The step of that event, as of every event before it, is approve: the
  \<open>catch\<close> takes the step from \<open>currentProgress\<close>, and lines 214-217 move
  \<open>currentProgressMeta\<close> on to the swapAndBridge phase but not \<open>currentProgress\<close>.
\<close>

lemma simulation_failure_run:
  assumes sim:
    "simulateContract (originClient p) (spokePoolPeripheryAddress p) ''swapAndBridge''
       (swapAndDepositData p) (userAddress p)
       (if isNativeOf p then Some (swapTokenAmount (swapAndDepositData p)) else None) = Inl e"
  and reached:
    "SimulateContract (spokePoolPeripheryAddress p) ''swapAndBridge''
       (swapAndDepositData p) (userAddress p)
       (if isNativeOf p then Some (swapTokenAmount (swapAndDepositData p)) else None)
     \<in> set (calls (snd (executeSwapAndBridge sdk p)))"
  shows "filter isSwapAndBridgeSend (calls (snd (executeSwapAndBridge sdk p))) = []
       \<and> (\<forall>ev \<in> set (delivered (snd (executeSwapAndBridge sdk p))). step ev = StepApprove)
       \<and> length (filter (\<lambda>ev. status ev = StatusError)
                   (delivered (snd (executeSwapAndBridge sdk p)))) = 1
       \<and> status (last (delivered (snd (executeSwapAndBridge sdk p)))) = StatusError
       \<and> step (last (delivered (snd (executeSwapAndBridge sdk p)))) = StepApprove
       \<and> errorOf (last (delivered (snd (executeSwapAndBridge sdk p)))) = Some e
       \<and> meta (last (delivered (snd (executeSwapAndBridge sdk p))))
           = SwapAndBridgeMeta (swapAndDepositData p)"
proof -
  define G where "G = (\<lambda>r :: (JsError + ExecuteSwapAndBridgeResponse) \<times> RunState.
     SimulateContract (spokePoolPeripheryAddress p) ''swapAndBridge''
       (swapAndDepositData p) (userAddress p)
       (if isNativeOf p then Some (swapTokenAmount (swapAndDepositData p)) else None)
     \<in> set (calls (snd r)) \<longrightarrow>
     filter isSwapAndBridgeSend (calls (snd r)) = []
       \<and> (\<forall>ev \<in> set (delivered (snd r)). step ev = StepApprove)
       \<and> length (filter (\<lambda>ev. status ev = StatusError) (delivered (snd r))) = 1
       \<and> status (last (delivered (snd r))) = StatusError
       \<and> step (last (delivered (snd r))) = StepApprove
       \<and> errorOf (last (delivered (snd r))) = Some e
       \<and> meta (last (delivered (snd r))) = SwapAndBridgeMeta (swapAndDepositData p))"
  have "G (executeSwapAndBridge sdk p)"
    apply (subst run_wp)
    using sim apply (simp add: run_simps split del: if_split)
    apply (simp add: G_def state_simps split del: if_split)
    done
  with reached show ?thesis by (simp add: G_def)
qed

text \<open>The same after an approval: the hypotheses above are met by a run.\<close>

lemma revertedParams_reached:
  "SimulateContract ''0x89415a82d909a7238d69094c3dd1dcc1acbda85c'' ''swapAndBridge''
     exampleData ''0xUser'' None
   \<in> set (calls (snd (executeSwapAndBridge okSdk revertedParams)))"
proof -
  define G where "G = (\<lambda>r :: (JsError + ExecuteSwapAndBridgeResponse) \<times> RunState.
     SimulateContract ''0x89415a82d909a7238d69094c3dd1dcc1acbda85c'' ''swapAndBridge''
       exampleData ''0xUser'' None \<in> set (calls (snd r)))"
  have "G (executeSwapAndBridge okSdk revertedParams)"
    apply (subst run_wp)
    apply (simp add: run_simps revertedParams_def example_simps)
    apply (simp add: G_def state_simps)
    done
  then show ?thesis by (simp add: G_def)
qed

lemma simulation_failure_run_example:
  "simulateContract (originClient revertedParams)
     ''0x89415a82d909a7238d69094c3dd1dcc1acbda85c'' ''swapAndBridge'' exampleData ''0xUser'' None
     = Inl (Error ''execution reverted'')
   \<and> SimulateContract ''0x89415a82d909a7238d69094c3dd1dcc1acbda85c'' ''swapAndBridge''
       exampleData ''0xUser'' None
     \<in> set (calls (snd (executeSwapAndBridge okSdk revertedParams)))
   \<and> filter isSwapAndBridgeSend (calls (snd (executeSwapAndBridge okSdk revertedParams))) = []
   \<and> step (last (delivered (snd (executeSwapAndBridge okSdk revertedParams)))) = StepApprove
   \<and> errorOf (last (delivered (snd (executeSwapAndBridge okSdk revertedParams))))
       = Some (Error ''execution reverted'')"
proof -
  have sim:
    "simulateContract (originClient revertedParams) (spokePoolPeripheryAddress revertedParams)
       ''swapAndBridge'' (swapAndDepositData revertedParams) (userAddress revertedParams)
       (if isNativeOf revertedParams
        then Some (swapTokenAmount (swapAndDepositData revertedParams)) else None)
       = Inl (Error ''execution reverted'')"
    by (simp add: revertedParams_def example_simps)
  have reached:
    "SimulateContract (spokePoolPeripheryAddress revertedParams) ''swapAndBridge''
       (swapAndDepositData revertedParams) (userAddress revertedParams)
       (if isNativeOf revertedParams
        then Some (swapTokenAmount (swapAndDepositData revertedParams)) else None)
     \<in> set (calls (snd (executeSwapAndBridge okSdk revertedParams)))"
    using revertedParams_reached by (simp add: revertedParams_def example_simps)
  show ?thesis
    using simulation_failure_run [OF sim reached] revertedParams_reached
    by (simp add: revertedParams_def example_simps)
qed

text \<open>
  The run with a native token and a reverting simulation: the simulation is the
  only call, and the only event is the error event.
\<close>

lemma revertedNative_run:
  "calls (snd (executeSwapAndBridge okSdk revertedNative))
     = [SimulateContract ''0x89415a82d909a7238d69094c3dd1dcc1acbda85c'' ''swapAndBridge''
          exampleData ''0xUser'' (Some 2000000000000000)]
   \<and> delivered (snd (executeSwapAndBridge okSdk revertedNative))
     = [ProgressError ApproveIdle (Error ''execution reverted'') (SwapAndBridgeMeta exampleData)]"
proof -
  define G where "G = (\<lambda>r :: (JsError + ExecuteSwapAndBridgeResponse) \<times> RunState.
     calls (snd r)
       = [SimulateContract ''0x89415a82d909a7238d69094c3dd1dcc1acbda85c'' ''swapAndBridge''
            exampleData ''0xUser'' (Some 2000000000000000)]
     \<and> delivered (snd r)
       = [ProgressError ApproveIdle (Error ''execution reverted'') (SwapAndBridgeMeta exampleData)])"
  have "G (executeSwapAndBridge okSdk revertedNative)"
    apply (subst run_wp)
    apply (simp add: run_simps revertedNative_def example_simps)
    apply (simp add: G_def state_simps)
    done
  then show ?thesis by (simp add: G_def)
qed

text \<open>
  C2. The claim: in every run in which the simulation of the swapAndBridge call
  throws, no swapAndBridge transaction is sent and the single error event delivered
  has step swapAndBridge. The code, in the run with a native token (the approval is
  skipped) whose simulation reverts: the simulation is made and throws, no
  swapAndBridge transaction is sent, and the one event delivered is an error event
  whose step is approve, not swapAndBridge.
\<close>

theorem C2_simulation_failure_reported_as_approve:
  "simulateContract (originClient revertedNative) (spokePoolPeripheryAddress revertedNative)
     ''swapAndBridge'' (swapAndDepositData revertedNative) (userAddress revertedNative)
     (if isNativeOf revertedNative
      then Some (swapTokenAmount (swapAndDepositData revertedNative)) else None)
     = Inl (Error ''execution reverted'')
   \<and> SimulateContract (spokePoolPeripheryAddress revertedNative) ''swapAndBridge''
       (swapAndDepositData revertedNative) (userAddress revertedNative)
       (if isNativeOf revertedNative
        then Some (swapTokenAmount (swapAndDepositData revertedNative)) else None)
     \<in> set (calls (snd (executeSwapAndBridge okSdk revertedNative)))
   \<and> filter isSwapAndBridgeSend (calls (snd (executeSwapAndBridge okSdk revertedNative))) = []
   \<and> map kind (delivered (snd (executeSwapAndBridge okSdk revertedNative)))
       = [(StepApprove, StatusError)]
   \<and> step (last (delivered (snd (executeSwapAndBridge okSdk revertedNative))))
       \<noteq> StepSwapAndBridge"
  using revertedNative_run
  by (simp add: revertedNative_def example_simps)

section \<open>The outcome of a run that fails\<close>

text \<open>
  C3, as the code has it. In every run in which the body of the \<open>try\<close> throws an
  error, the error event built from it is delivered last, and, provided the progress
  callback returns normally on that event: if \<open>throwOnError\<close> is false the run
  returns a result whose \<open>error\<close> field holds the error and whose
  \<open>depositId\<close>, \<open>swapAndBridgeTxReceipt\<close> and \<open>fillTxReceipt\<close> are absent,
  and if \<open>throwOnError\<close> is true (the default) the same error is thrown to the
  caller. If the callback throws on the error event, it is that throw that reaches the
  caller, whatever \<open>throwOnError\<close> is.
\<close>

theorem C3_error_result:
  assumes raised: "fst (tryBlock sdk p initialState) = Inl e"
  shows "delivered (snd (executeSwapAndBridge sdk p))
           = delivered (snd (tryBlock sdk p initialState))
             @ [ProgressError (currentProgress (snd (tryBlock sdk p initialState))) e
                  (currentProgressMeta (snd (tryBlock sdk p initialState)))]
       \<and> (onProgressHandler p (last (delivered (snd (executeSwapAndBridge sdk p)))) = Inr () \<longrightarrow>
            fst (executeSwapAndBridge sdk p)
              = (if throwOnErrorOf p then Inl e
                 else Inr \<lparr>depositId = None, swapAndBridgeTxReceipt = None,
                           fillTxReceipt = None, error = Some e\<rparr>))
       \<and> (\<forall>e'. onProgressHandler p (last (delivered (snd (executeSwapAndBridge sdk p)))) = Inl e' \<longrightarrow>
            fst (executeSwapAndBridge sdk p) = Inl e')"
proof -
  obtain s where t: "tryBlock sdk p initialState = (Inl e, s)"
    using raised by (cases "tryBlock sdk p initialState") simp
  show ?thesis
    by (simp add: executeSwapAndBridge_def t catchBlock_def bindE_def report_def
        returnE_def throwE_def Let_def split: sum.splits)
qed

text \<open>
  The simulation reverts, \<open>throwOnError\<close> is false and the callback throws on the
  error event: the run does not return a result, it throws the callback's error.
\<close>

lemma revertedThrowingCallback_try:
  "fst (tryBlock okSdk revertedThrowingCallback initialState)
     = Inl (Error ''execution reverted'')"
proof -
  define G where "G = (\<lambda>r :: (JsError + ExecuteSwapAndBridgeResponse) \<times> RunState. fst r = Inl (Error ''execution reverted''))"
  have "G (tryBlock okSdk revertedThrowingCallback initialState)"
    apply (subst exec_wp)
    apply (simp add: run_simps revertedThrowingCallback_def revertedNative_def example_simps)
    apply (simp add: G_def)
    done
  then show ?thesis by (simp add: G_def)
qed

lemma revertedThrowingCallback_run:
  "fst (executeSwapAndBridge okSdk revertedThrowingCallback) = Inl (Error ''callback failed'')"
proof -
  define G where "G = (\<lambda>r :: (JsError + ExecuteSwapAndBridgeResponse) \<times> RunState. fst r = Inl (Error ''callback failed''))"
  have "G (executeSwapAndBridge okSdk revertedThrowingCallback)"
    apply (subst run_wp)
    apply (simp add: run_simps revertedThrowingCallback_def revertedNative_def example_simps)
    apply (simp add: G_def)
    done
  then show ?thesis by (simp add: G_def)
qed

theorem C3_error_result_counterexample:
  "fst (tryBlock okSdk revertedThrowingCallback initialState)
     = Inl (Error ''execution reverted'')
   \<and> \<not> throwOnErrorOf revertedThrowingCallback
   \<and> fst (executeSwapAndBridge okSdk revertedThrowingCallback)
       = Inl (Error ''callback failed'')"
  using revertedThrowingCallback_try revertedThrowingCallback_run
  by (simp add: revertedThrowingCallback_def throwOnErrorOf_def)

text \<open>The same run without a callback returns the error.\<close>

lemma revertedQuiet_try:
  "fst (tryBlock okSdk revertedQuiet initialState) = Inl (Error ''execution reverted'')"
proof -
  define G where "G = (\<lambda>r :: (JsError + ExecuteSwapAndBridgeResponse) \<times> RunState. fst r = Inl (Error ''execution reverted''))"
  have "G (tryBlock okSdk revertedQuiet initialState)"
    apply (subst exec_wp)
    apply (simp add: run_simps revertedQuiet_def revertedNative_def example_simps)
    apply (simp add: G_def)
    done
  then show ?thesis by (simp add: G_def)
qed

theorem C3_error_result_witness:
  "fst (tryBlock okSdk revertedQuiet initialState) = Inl (Error ''execution reverted'')
   \<and> fst (executeSwapAndBridge okSdk revertedQuiet)
       = Inr \<lparr>depositId = None, swapAndBridgeTxReceipt = None, fillTxReceipt = None,
              error = Some (Error ''execution reverted'')\<rparr>"
  using C3_error_result [OF revertedQuiet_try] revertedQuiet_try
  by (simp add: revertedQuiet_def revertedNative_def okParams_fields
       onProgressHandler_def throwOnErrorOf_def)

section \<open>Skipping the approval\<close>

text \<open>
  C4. In every run where \<open>isNative\<close> is true or \<open>skipAllowanceCheck\<close> is true, no
  allowance is read (the run makes no \<open>readContract\<close> call), no approval
  transaction is sent, and no event with step approve and status txPending or
  txSuccess is handed to the callback.
\<close>

theorem C4_approval_skipped:
  assumes skip: "isNativeOf p \<or> skipAllowanceCheckOf p"
  shows "filter isReadContract (calls (snd (executeSwapAndBridge sdk p))) = []
       \<and> filter isApproveSend (calls (snd (executeSwapAndBridge sdk p))) = []
       \<and> (\<forall>ev \<in> set (delivered (snd (executeSwapAndBridge sdk p))).
             \<not> (step ev = StepApprove
                \<and> (status ev = StatusTxPending \<or> status ev = StatusTxSuccess)))"
proof -
  define G where "G = (\<lambda>r :: (JsError + ExecuteSwapAndBridgeResponse) \<times> RunState.
       filter isReadContract (calls (snd r)) = []
       \<and> filter isApproveSend (calls (snd r)) = []
       \<and> (\<forall>ev \<in> set (delivered (snd r)).
             \<not> (step ev = StepApprove
                \<and> (status ev = StatusTxPending \<or> status ev = StatusTxSuccess))))"
  have "G (executeSwapAndBridge sdk p)"
    apply (subst run_wp)
    using skip
    apply (simp add: approvePhase_skipped tryBlock_def swapAndBridgePhase_def fillPhase_def
         wp_simps Let_def state_simps initialState_def split del: if_split)
    apply (simp add: G_def state_simps split del: if_split)
    done
  then show ?thesis by (simp add: G_def)
qed

theorem C4_approval_skipped_witness:
  "(isNativeOf nativeParams \<or> skipAllowanceCheckOf nativeParams)
   \<and> filter isReadContract (calls (snd (executeSwapAndBridge okSdk nativeParams))) = []
   \<and> filter isApproveSend (calls (snd (executeSwapAndBridge okSdk nativeParams))) = []"
proof -
  have native: "isNativeOf nativeParams \<or> skipAllowanceCheckOf nativeParams"
    by (simp add: nativeParams_def isNativeOf_def)
  show ?thesis
    using native C4_approval_skipped [OF native, of okSdk] by simp
qed

section \<open>An allowance that suffices\<close>

text \<open>
  What every run does in which the approval phase is not skipped and the allowance
  read from the chain is at least \<open>swapTokenAmount\<close>: the approval phase ends
  after the allowance read, without an event, so that the run goes on with the
  swapAndBridge phase; no approval transaction is sent and no approve:txPending or
  approve:txSuccess event is delivered.
\<close>

lemma allowance_sufficient_run:
  assumes notSkipped: "\<not> skipAllowanceCheckOf p" "\<not> isNativeOf p"
  and allowance:
    "readContract (originClient p) (swapToken (swapAndDepositData p)) ''allowance''
       [userAddress p, spokePoolPeripheryAddress p] = Inr allowance"
  and sufficient: "swapTokenAmount (swapAndDepositData p) \<le> allowance"
  shows "approvePhase sdk p initialState
           = (Inr (), initialState\<lparr>calls :=
                [ReadContract (swapToken (swapAndDepositData p)) ''allowance''
                   [userAddress p, spokePoolPeripheryAddress p]]\<rparr>)
       \<and> filter isApproveSend (calls (snd (executeSwapAndBridge sdk p))) = []
       \<and> (\<forall>ev \<in> set (delivered (snd (executeSwapAndBridge sdk p))).
             \<not> (step ev = StepApprove
                \<and> (status ev = StatusTxPending \<or> status ev = StatusTxSuccess)))"
proof -
  have phase: "approvePhase sdk p s
           = (Inr (), logCall (ReadContract (swapToken (swapAndDepositData p)) ''allowance''
                   [userAddress p, spokePoolPeripheryAddress p]) s)" for s
    using notSkipped allowance sufficient
    by (simp add: approvePhase_def Let_def bindE_def await_def returnE_def logCall_def)
  have wp_phase: "wp (approvePhase sdk p) Q E s
           = Q () (logCall (ReadContract (swapToken (swapAndDepositData p)) ''allowance''
                   [userAddress p, spokePoolPeripheryAddress p]) s)" for Q E s
    by (simp add: wp_def phase)
  have first: "approvePhase sdk p initialState
           = (Inr (), initialState\<lparr>calls :=
                [ReadContract (swapToken (swapAndDepositData p)) ''allowance''
                   [userAddress p, spokePoolPeripheryAddress p]]\<rparr>)"
    by (simp add: phase logCall_def initialState_def)
  define G where "G = (\<lambda>r :: (JsError + ExecuteSwapAndBridgeResponse) \<times> RunState.
       filter isApproveSend (calls (snd r)) = []
       \<and> (\<forall>ev \<in> set (delivered (snd r)).
             \<not> (step ev = StepApprove
                \<and> (status ev = StatusTxPending \<or> status ev = StatusTxSuccess))))"
  have "G (executeSwapAndBridge sdk p)"
    apply (subst run_wp)
    apply (simp add: wp_phase tryBlock_def swapAndBridgePhase_def fillPhase_def wp_simps Let_def
             state_simps initialState_def split del: if_split)
    apply (simp add: G_def state_simps split del: if_split)
    done
  with first show ?thesis by (simp add: G_def)
qed

text \<open>The hypotheses above are met by a run.\<close>

lemma allowance_sufficient_run_example:
  "\<not> skipAllowanceCheckOf approvedParams \<and> \<not> isNativeOf approvedParams
   \<and> readContract (originClient approvedParams)
       (swapToken (swapAndDepositData approvedParams)) ''allowance''
       [userAddress approvedParams, spokePoolPeripheryAddress approvedParams]
       = Inr 2000000000000000
   \<and> swapTokenAmount (swapAndDepositData approvedParams) \<le> 2000000000000000
   \<and> filter isApproveSend (calls (snd (executeSwapAndBridge okSdk approvedParams))) = []"
proof -
  have a: "\<not> skipAllowanceCheckOf approvedParams"
    by (simp add: approvedParams_def example_simps)
  have b: "\<not> isNativeOf approvedParams"
    by (simp add: approvedParams_def example_simps)
  have c: "readContract (originClient approvedParams)
       (swapToken (swapAndDepositData approvedParams)) ''allowance''
       [userAddress approvedParams, spokePoolPeripheryAddress approvedParams]
       = Inr 2000000000000000"
    by (simp add: approvedParams_def example_simps)
  have d: "swapTokenAmount (swapAndDepositData approvedParams) \<le> 2000000000000000"
    by (simp add: approvedParams_def example_simps)
  show ?thesis
    using a b c d allowance_sufficient_run [OF a b c d, of okSdk] by simp
qed

text \<open>
  The allowance covers the amount and the simulation reverts: the allowance read and
  the simulation are the only calls, and the only event is the error event.
\<close>

lemma approvedReverted_run:
  "calls (snd (executeSwapAndBridge okSdk approvedReverted))
     = [ReadContract ''0x4200000000000000000000000000000000000006'' ''allowance''
          [''0xUser'', ''0x89415a82d909a7238d69094c3dd1dcc1acbda85c''],
        SimulateContract ''0x89415a82d909a7238d69094c3dd1dcc1acbda85c'' ''swapAndBridge''
          exampleData ''0xUser'' None]
   \<and> delivered (snd (executeSwapAndBridge okSdk approvedReverted))
     = [ProgressError ApproveIdle (Error ''execution reverted'') (SwapAndBridgeMeta exampleData)]"
proof -
  define G where "G = (\<lambda>r :: (JsError + ExecuteSwapAndBridgeResponse) \<times> RunState.
     calls (snd r)
       = [ReadContract ''0x4200000000000000000000000000000000000006'' ''allowance''
            [''0xUser'', ''0x89415a82d909a7238d69094c3dd1dcc1acbda85c''],
          SimulateContract ''0x89415a82d909a7238d69094c3dd1dcc1acbda85c'' ''swapAndBridge''
            exampleData ''0xUser'' None]
     \<and> delivered (snd r)
       = [ProgressError ApproveIdle (Error ''execution reverted'') (SwapAndBridgeMeta exampleData)])"
  have "G (executeSwapAndBridge okSdk approvedReverted)"
    apply (subst run_wp)
    apply (simp add: run_simps approvedReverted_def example_simps)
    apply (simp add: G_def state_simps)
    done
  then show ?thesis by (simp add: G_def)
qed

text \<open>
  C5. The claim: in every run where the approval phase is not skipped and the
  allowance read is at least \<open>swapTokenAmount\<close>, no approval transaction is sent
  and no event with step approve is delivered. The code, in the run whose allowance
  equals the amount and whose simulation reverts: the approval phase is not skipped,
  the allowance suffices, no approval transaction is sent, the failure happens in the
  swapAndBridge phase, and the one event delivered is an error event with step
  approve.
\<close>

theorem C5_allowance_sufficient_approve_event:
  "\<not> skipAllowanceCheckOf approvedReverted \<and> \<not> isNativeOf approvedReverted
   \<and> readContract (originClient approvedReverted)
       (swapToken (swapAndDepositData approvedReverted)) ''allowance''
       [userAddress approvedReverted, spokePoolPeripheryAddress approvedReverted]
       = Inr 2000000000000000
   \<and> swapTokenAmount (swapAndDepositData approvedReverted) \<le> 2000000000000000
   \<and> filter isApproveSend (calls (snd (executeSwapAndBridge okSdk approvedReverted))) = []
   \<and> map isReadContract (calls (snd (executeSwapAndBridge okSdk approvedReverted)))
       = [True, False]
   \<and> map kind (delivered (snd (executeSwapAndBridge okSdk approvedReverted)))
       = [(StepApprove, StatusError)]"
  using approvedReverted_run
  by (simp add: approvedReverted_def example_simps)

section \<open>The approval amount\<close>

lemma approvalCallOk_simps:
  "approvalCallOk p (ReadContract r1 r2 r3)"
  "approvalCallOk p (WaitForTransactionReceipt h1)"
  "approvalCallOk p (SimulateContract s1 s2 s3 s4 s5)"
  "approvalCallOk p (WaitForDepositTx w1 w2)"
  "approvalCallOk p GetBlockNumber"
  "approvalCallOk p (WaitForFillTx f1 f2 f3 f4)"
  "approvalCallOk p (SendTransaction \<lparr>account = acc1, chain = ch1, to = t1,
      data = Encoded (SwapAndBridge d1), txValue = v1\<rparr>)"
  "approvalCallOk p (SendTransaction \<lparr>account = acc2, chain = ch2, to = t2,
      data = Encoded (Approve (spokePoolPeripheryAddress p)
        (if infiniteApprovalOf p then maxUint256 else swapTokenAmount (swapAndDepositData p))),
      txValue = v2\<rparr>)"
  by (simp_all add: approvalCallOk_def)

lemma approvalEventOk_simps:
  "approvalEventOk p (ApproveTxPending h1 (ApproveMeta
      (if infiniteApprovalOf p then maxUint256 else swapTokenAmount (swapAndDepositData p))
      (spokePoolPeripheryAddress p)))"
  "approvalEventOk p (ApproveTxSuccess r1 (ApproveMeta
      (if infiniteApprovalOf p then maxUint256 else swapTokenAmount (swapAndDepositData p))
      (spokePoolPeripheryAddress p)))"
  "approvalEventOk p (SwapAndBridgeTxPending h2 (SwapAndBridgeMeta d1))"
  "approvalEventOk p (SwapAndBridgeTxSuccess k1 k2 k3 (SwapAndBridgeMeta k4))"
  "approvalEventOk p (FillPending (FillMeta j1))"
  "approvalEventOk p (FillTxSuccess g1 g2 g3 g4 (FillMeta g5))"
  "approvalEventOk p (ProgressError prev1 e1 (SwapAndBridgeMeta d2))"
  "approvalEventOk p (ProgressError prev2 e2 (FillMeta j2))"
  "approvalEventOk p (ProgressError prev3 e3 MetaUndefined)"
  "approvalEventOk p (ProgressError ApproveIdle e4 (ApproveMeta
      (if infiniteApprovalOf p then maxUint256 else swapTokenAmount (swapAndDepositData p))
      (spokePoolPeripheryAddress p)))"
  "approvalEventOk p (ProgressError (ApproveTxPending h3 m3) e5 (ApproveMeta
      (if infiniteApprovalOf p then maxUint256 else swapTokenAmount (swapAndDepositData p))
      (spokePoolPeripheryAddress p)))"
  "approvalEventOk p (ProgressError (ApproveTxSuccess r3 m4) e6 (ApproveMeta
      (if infiniteApprovalOf p then maxUint256 else swapTokenAmount (swapAndDepositData p))
      (spokePoolPeripheryAddress p)))"
  by (simp_all add: approvalEventOk_def split del: if_split)

lemma approval_amount_invariant:
  "(\<forall>c \<in> set (calls (snd (executeSwapAndBridge sdk p))). approvalCallOk p c)
   \<and> (\<forall>ev \<in> set (delivered (snd (executeSwapAndBridge sdk p))). approvalEventOk p ev)"
proof -
  define G where "G = (\<lambda>r :: (JsError + ExecuteSwapAndBridgeResponse) \<times> RunState.
     (\<forall>c \<in> set (calls (snd r)). approvalCallOk p c)
     \<and> (\<forall>ev \<in> set (delivered (snd r)). approvalEventOk p ev))"
  have "G (executeSwapAndBridge sdk p)"
    apply (subst run_wp)
    apply (simp add: run_simps split del: if_split)
    apply (simp add: G_def state_simps approvalCallOk_simps approvalEventOk_simps
             split del: if_split)
    done
  then show ?thesis by (simp add: G_def)
qed

text \<open>
  C6. In every run, an approval transaction that is sent approves the periphery
  contract as spender, for the largest unsigned 256-bit integer when
  \<open>infiniteApproval\<close> is true and for exactly \<open>swapTokenAmount\<close> when it is
  false; every delivered event whose meta is an approval meta carries that amount and
  that spender, and the approve:txPending and approve:txSuccess events carry such a
  meta.
\<close>

theorem C6_approval_amount:
  "maxUint256 = 2 ^ 256 - 1
   \<and> (\<forall>c \<in> set (calls (snd (executeSwapAndBridge sdk p))). \<forall>sp a.
       sentCall c = Some (Approve sp a) \<longrightarrow>
         sp = spokePoolPeripheryAddress p
         \<and> a = (if infiniteApprovalOf p then maxUint256
                else swapTokenAmount (swapAndDepositData p)))
   \<and> (\<forall>ev \<in> set (delivered (snd (executeSwapAndBridge sdk p))).
        (\<forall>a sp. meta ev = ApproveMeta a sp \<longrightarrow>
           sp = spokePoolPeripheryAddress p
           \<and> a = (if infiniteApprovalOf p then maxUint256
                  else swapTokenAmount (swapAndDepositData p)))
        \<and> (step ev = StepApprove
             \<and> (status ev = StatusTxPending \<or> status ev = StatusTxSuccess) \<longrightarrow>
           meta ev = ApproveMeta
             (if infiniteApprovalOf p then maxUint256
              else swapTokenAmount (swapAndDepositData p))
             (spokePoolPeripheryAddress p)))"
proof -
  have calls: "\<forall>c \<in> set (calls (snd (executeSwapAndBridge sdk p))). approvalCallOk p c"
    and events: "\<forall>ev \<in> set (delivered (snd (executeSwapAndBridge sdk p))). approvalEventOk p ev"
    using approval_amount_invariant [of sdk p] by blast+
  have a: "\<forall>c \<in> set (calls (snd (executeSwapAndBridge sdk p))). \<forall>sp a.
       sentCall c = Some (Approve sp a) \<longrightarrow>
         sp = spokePoolPeripheryAddress p
         \<and> a = (if infiniteApprovalOf p then maxUint256
                else swapTokenAmount (swapAndDepositData p))"
    using calls unfolding approvalCallOk_def by blast
  have b: "\<forall>ev \<in> set (delivered (snd (executeSwapAndBridge sdk p))).
        (\<forall>a sp. meta ev = ApproveMeta a sp \<longrightarrow>
           sp = spokePoolPeripheryAddress p
           \<and> a = (if infiniteApprovalOf p then maxUint256
                  else swapTokenAmount (swapAndDepositData p)))
        \<and> (step ev = StepApprove
             \<and> (status ev = StatusTxPending \<or> status ev = StatusTxSuccess) \<longrightarrow>
           meta ev = ApproveMeta
             (if infiniteApprovalOf p then maxUint256
              else swapTokenAmount (swapAndDepositData p))
             (spokePoolPeripheryAddress p))"
    using events unfolding approvalEventOk_def by blast
  show ?thesis using a b maxUint256_def by blast
qed

text \<open>With \<open>infiniteApproval\<close> the approval sent is for \<open>maxUint256\<close>.\<close>

lemma infinite_run_approval:
  "SendTransaction
     \<lparr>account = Some ''0xUser'', chain = \<lparr>chainId = 8453, chainName = ''base''\<rparr>,
      to = ''0x4200000000000000000000000000000000000006'',
      data = Encoded (Approve ''0x89415a82d909a7238d69094c3dd1dcc1acbda85c'' maxUint256),
      txValue = None\<rparr>
   \<in> set (calls (snd (executeSwapAndBridge okSdk infiniteParams)))"
proof -
  define G where "G = (\<lambda>r :: (JsError + ExecuteSwapAndBridgeResponse) \<times> RunState.
     SendTransaction
       \<lparr>account = Some ''0xUser'', chain = \<lparr>chainId = 8453, chainName = ''base''\<rparr>,
        to = ''0x4200000000000000000000000000000000000006'',
        data = Encoded (Approve ''0x89415a82d909a7238d69094c3dd1dcc1acbda85c'' maxUint256),
        txValue = None\<rparr> \<in> set (calls (snd r)))"
  have "G (executeSwapAndBridge okSdk infiniteParams)"
    apply (subst run_wp)
    apply (simp add: run_simps infiniteParams_def example_simps)
    apply (simp add: G_def state_simps)
    done
  then show ?thesis by (simp add: G_def)
qed

theorem C6_approval_amount_witness:
  "SendTransaction
     \<lparr>account = Some ''0xUser'', chain = \<lparr>chainId = 8453, chainName = ''base''\<rparr>,
      to = ''0x4200000000000000000000000000000000000006'',
      data = Encoded (Approve ''0x89415a82d909a7238d69094c3dd1dcc1acbda85c'' maxUint256),
      txValue = None\<rparr>
   \<in> set (calls (snd (executeSwapAndBridge okSdk infiniteParams)))
   \<and> infiniteApprovalOf infiniteParams
   \<and> spokePoolPeripheryAddress infiniteParams = ''0x89415a82d909a7238d69094c3dd1dcc1acbda85c''
   \<and> maxUint256 = 2 ^ 256 - 1"
proof -
  have "maxUint256 = 2 ^ 256 - 1"
    using C6_approval_amount [of okSdk infiniteParams] by blast
  then show ?thesis
    using infinite_run_approval
    by (simp add: infiniteParams_def okParams_fields infiniteApprovalOf_def)
qed

section \<open>The result of a run that succeeds\<close>

text \<open>
  C7. In every run in which the body of the \<open>try\<close> returns, the swapAndBridge
  transaction was sent and gave a hash, \<open>waitForDepositTx\<close> returned a deposit id
  and a receipt for that hash, the destination block number was read and
  \<open>waitForFillTx\<close> returned a fill receipt for that deposit; the run returns to
  the caller exactly that deposit id, that deposit receipt and that fill receipt, and
  the \<open>error\<close> field of the result is absent.
\<close>

theorem C7_success_result:
  assumes completed: "fst (tryBlock sdk p initialState) = Inr r"
  shows "\<exists>h dep blk fill.
      sendTransaction (walletClient p)
        \<lparr>account = walletAccount (walletClient p), chain = originChain p,
         to = spokePoolPeripheryAddress p,
         data = Encoded (SwapAndBridge (swapAndDepositData p)),
         txValue = (if isNativeOf p then Some (swapTokenAmount (swapAndDepositData p))
                    else None)\<rparr>
        = Inr h
    \<and> waitForDepositTx sdk (chainId (originChain p)) h = Inr dep
    \<and> getBlockNumber (destinationClient p) = Inr blk
    \<and> waitForFillTx sdk
          (chainId (originChain p), chainId (destinationChain p),
           destinationSpokePoolAddress p, message (depositData (swapAndDepositData p)))
          (fst dep) (transactionHash (snd dep)) (blk - 100) = Inr fill
    \<and> r = \<lparr>depositId = Some (fst dep), swapAndBridgeTxReceipt = Some (snd dep),
            fillTxReceipt = Some (fst fill), error = None\<rparr>
    \<and> fst (executeSwapAndBridge sdk p) = Inr r"
proof -
  define G where "G = (\<lambda>t :: (JsError + ExecuteSwapAndBridgeResponse) \<times> RunState.
    \<forall>r. fst t = Inr r \<longrightarrow> (\<exists>h dep blk fill.
      sendTransaction (walletClient p)
        \<lparr>account = walletAccount (walletClient p), chain = originChain p,
         to = spokePoolPeripheryAddress p,
         data = Encoded (SwapAndBridge (swapAndDepositData p)),
         txValue = (if isNativeOf p then Some (swapTokenAmount (swapAndDepositData p))
                    else None)\<rparr>
        = Inr h
    \<and> waitForDepositTx sdk (chainId (originChain p)) h = Inr dep
    \<and> getBlockNumber (destinationClient p) = Inr blk
    \<and> waitForFillTx sdk
          (chainId (originChain p), chainId (destinationChain p),
           destinationSpokePoolAddress p, message (depositData (swapAndDepositData p)))
          (fst dep) (transactionHash (snd dep)) (blk - 100) = Inr fill
    \<and> r = \<lparr>depositId = Some (fst dep), swapAndBridgeTxReceipt = Some (snd dep),
            fillTxReceipt = Some (fst fill), error = None\<rparr>))"
  have "G (tryBlock sdk p initialState)"
    apply (subst exec_wp)
    apply (simp add: run_simps split del: if_split)
    apply (simp add: G_def split del: if_split)
    done
  moreover have "fst (executeSwapAndBridge sdk p) = Inr r"
    using completed
    by (cases "tryBlock sdk p initialState") (simp add: executeSwapAndBridge_def)
  ultimately show ?thesis using completed by (simp add: G_def)
qed

lemma ok_run_try:
  "fst (tryBlock okSdk okParams initialState)
     = Inr \<lparr>depositId = Some 42,
            swapAndBridgeTxReceipt =
              Some \<lparr>transactionHash = ''0xDepositTx'', blockNumber = 101, logs = [''deposit'']\<rparr>,
            fillTxReceipt =
              Some \<lparr>transactionHash = ''0xFillTx'', blockNumber = 4990, logs = [''fill'']\<rparr>,
            error = None\<rparr>"
proof -
  define G where "G = (\<lambda>t :: (JsError + ExecuteSwapAndBridgeResponse) \<times> RunState.
    fst t = Inr \<lparr>depositId = Some 42,
            swapAndBridgeTxReceipt =
              Some \<lparr>transactionHash = ''0xDepositTx'', blockNumber = 101, logs = [''deposit'']\<rparr>,
            fillTxReceipt =
              Some \<lparr>transactionHash = ''0xFillTx'', blockNumber = 4990, logs = [''fill'']\<rparr>,
            error = None\<rparr>)"
  have "G (tryBlock okSdk okParams initialState)"
    apply (subst exec_wp)
    apply (simp add: run_simps example_simps)
    apply (simp add: G_def)
    done
  then show ?thesis by (simp add: G_def)
qed

theorem C7_success_result_witness:
  "fst (tryBlock okSdk okParams initialState)
     = Inr \<lparr>depositId = Some 42,
            swapAndBridgeTxReceipt =
              Some \<lparr>transactionHash = ''0xDepositTx'', blockNumber = 101, logs = [''deposit'']\<rparr>,
            fillTxReceipt =
              Some \<lparr>transactionHash = ''0xFillTx'', blockNumber = 4990, logs = [''fill'']\<rparr>,
            error = None\<rparr>
   \<and> fst (executeSwapAndBridge okSdk okParams)
     = Inr \<lparr>depositId = Some 42,
            swapAndBridgeTxReceipt =
              Some \<lparr>transactionHash = ''0xDepositTx'', blockNumber = 101, logs = [''deposit'']\<rparr>,
            fillTxReceipt =
              Some \<lparr>transactionHash = ''0xFillTx'', blockNumber = 4990, logs = [''fill'']\<rparr>,
            error = None\<rparr>"
  using C7_success_result [OF ok_run_try] ok_run_try by blast

section \<open>A router address that changes\<close>

text \<open>
  C8. Whenever the update hook of the swap action is invoked and the updated quote
  comes back with a router address that differs from the router address of the
  first quote, the hook throws (``Swap contract address changed'' in
  \<open>executeSwap\<close>, ``Destination swap contract address changed'' in
  \<open>executeSwapBridgeSwap\<close>): it returns no call data and does not take over the
  new address.
\<close>

theorem C8_router_changed:
  "(generateSwapCallData api updatedOutputAmount kyberTokenIn kyberTokenOut user user
       destinationChainName False = Inr (updatedCalldata, updatedTo)
     \<and> to' \<noteq> updatedTo \<longrightarrow>
     executeSwap_update api user to' updatedOutputAmount
       = Inl (Error ''Swap contract address changed''))
   \<and> (gen updatedOutputAmount destinationSwapTokenIn destinationSwapTokenOut
         destinationSwapSlippageBps user user destinationChainName False
       = Inr (updatedCalldata, updatedTo, amountOut)
     \<and> destExchange \<noteq> updatedTo \<longrightarrow>
     executeSwapBridgeSwap_update gen user destExchange updatedOutputAmount
       = Inl (Error ''Destination swap contract address changed''))"
  by (simp add: executeSwap_update_def executeSwapBridgeSwap_update_def)

theorem C8_router_changed_witness:
  "generateSwapCallData movedRouterApi 4900000 kyberTokenIn kyberTokenOut ''0xUser'' ''0xUser''
       destinationChainName False = Inr (''0xfeed'', Some ''0xNewRouter'')
   \<and> Some ''0xOldRouter'' \<noteq> Some ''0xNewRouter''
   \<and> executeSwap_update movedRouterApi ''0xUser'' (Some ''0xOldRouter'') 4900000
       = Inl (Error ''Swap contract address changed'')
   \<and> movedRouterGen 4900000 destinationSwapTokenIn destinationSwapTokenOut
         destinationSwapSlippageBps ''0xUser'' ''0xUser'' destinationChainName False
       = Inr (''0xfeed'', Some ''0xNewRouter'', ''1000'')
   \<and> executeSwapBridgeSwap_update movedRouterGen ''0xUser'' (Some ''0xOldRouter'') 4900000
       = Inl (Error ''Destination swap contract address changed'')"
proof -
  have quote: "generateSwapCallData movedRouterApi 4900000 kyberTokenIn kyberTokenOut
       ''0xUser'' ''0xUser'' destinationChainName False = Inr (''0xfeed'', Some ''0xNewRouter'')"
    by (simp add: generateSwapCallData_def movedRouterApi_def)
  have gen: "movedRouterGen 4900000 destinationSwapTokenIn destinationSwapTokenOut
         destinationSwapSlippageBps ''0xUser'' ''0xUser'' destinationChainName False
       = Inr (''0xfeed'', Some ''0xNewRouter'', ''1000'')"
    by (simp add: movedRouterGen_def)
  have differs: "Some ''0xOldRouter'' \<noteq> Some ''0xNewRouter''"
    by simp
  show ?thesis
    using quote gen differs
      C8_router_changed [of movedRouterApi 4900000 "''0xUser''" "''0xfeed''"
        "Some ''0xNewRouter''" "Some ''0xOldRouter''" movedRouterGen "''1000''"
        "Some ''0xOldRouter''"]
    by blast
qed

section \<open>A callback that throws\<close>

text \<open>
  C9, as the code has it. In every run, a throw of the progress callback on an event
  that is not the error event is caught like any other error: the run is aborted,
  that event is followed by the error event built from it and carrying the thrown
  error, and by nothing else; what the caller gets is then decided as for any failure
  (the error is returned if \<open>throwOnError\<close> is false and thrown again if it is
  true, unless the callback throws on the error event too). A throw of the callback on
  the error event, which is the last event, is not caught and reaches the caller.
\<close>

theorem C9_callback_throw:
  "\<forall>ev \<in> set (delivered (snd (executeSwapAndBridge sdk p))). \<forall>e.
     onProgressHandler p ev = Inl e \<longrightarrow>
       (status ev = StatusError \<longrightarrow>
          ev = last (delivered (snd (executeSwapAndBridge sdk p)))
          \<and> fst (executeSwapAndBridge sdk p) = Inl e)
     \<and> (status ev \<noteq> StatusError \<longrightarrow>
          last (butlast (delivered (snd (executeSwapAndBridge sdk p)))) = ev
          \<and> (\<exists>m. last (delivered (snd (executeSwapAndBridge sdk p))) = ProgressError ev e m)
          \<and> (onProgressHandler p (last (delivered (snd (executeSwapAndBridge sdk p)))) = Inr ()
               \<longrightarrow>
                fst (executeSwapAndBridge sdk p)
                  = (if throwOnErrorOf p then Inl e
                     else Inr \<lparr>depositId = None, swapAndBridgeTxReceipt = None,
                               fillTxReceipt = None, error = Some e\<rparr>))
          \<and> (\<forall>e'. onProgressHandler p (last (delivered (snd (executeSwapAndBridge sdk p))))
                   = Inl e' \<longrightarrow>
                fst (executeSwapAndBridge sdk p) = Inl e'))"
proof -
  define G where "G = (\<lambda>r :: (JsError + ExecuteSwapAndBridgeResponse) \<times> RunState.
   \<forall>ev \<in> set (delivered (snd r)). \<forall>e.
     onProgressHandler p ev = Inl e \<longrightarrow>
       (status ev = StatusError \<longrightarrow> ev = last (delivered (snd r)) \<and> fst r = Inl e)
     \<and> (status ev \<noteq> StatusError \<longrightarrow>
          last (butlast (delivered (snd r))) = ev
          \<and> (\<exists>m. last (delivered (snd r)) = ProgressError ev e m)
          \<and> (onProgressHandler p (last (delivered (snd r))) = Inr () \<longrightarrow>
                fst r = (if throwOnErrorOf p then Inl e
                     else Inr \<lparr>depositId = None, swapAndBridgeTxReceipt = None,
                               fillTxReceipt = None, error = Some e\<rparr>))
          \<and> (\<forall>e'. onProgressHandler p (last (delivered (snd r))) = Inl e' \<longrightarrow> fst r = Inl e')))"
  have "G (executeSwapAndBridge sdk p)"
    apply (subst run_wp)
    apply (simp add: run_simps split del: if_split)
    apply (simp add: G_def state_simps split del: if_split)
    done
  then show ?thesis by (simp add: G_def)
qed

text \<open>
  The callback throws on swapAndBridge:txPending and \<open>throwOnError\<close> is false: the
  callback is invoked once more, with the error event, and the run returns a result
  to the caller.
\<close>

lemma submittedThrowQuiet_run:
  "delivered (snd (executeSwapAndBridge okSdk submittedThrowQuiet))
     = [SwapAndBridgeTxPending ''0xDepositTx'' (SwapAndBridgeMeta exampleData),
        ProgressError (SwapAndBridgeTxPending ''0xDepositTx'' (SwapAndBridgeMeta exampleData))
          (Error ''callback failed'') (SwapAndBridgeMeta exampleData)]
   \<and> fst (executeSwapAndBridge okSdk submittedThrowQuiet)
     = Inr \<lparr>depositId = None, swapAndBridgeTxReceipt = None, fillTxReceipt = None,
            error = Some (Error ''callback failed'')\<rparr>"
proof -
  define G where "G = (\<lambda>r :: (JsError + ExecuteSwapAndBridgeResponse) \<times> RunState.
     delivered (snd r)
       = [SwapAndBridgeTxPending ''0xDepositTx'' (SwapAndBridgeMeta exampleData),
          ProgressError (SwapAndBridgeTxPending ''0xDepositTx'' (SwapAndBridgeMeta exampleData))
            (Error ''callback failed'') (SwapAndBridgeMeta exampleData)]
     \<and> fst r = Inr \<lparr>depositId = None, swapAndBridgeTxReceipt = None, fillTxReceipt = None,
            error = Some (Error ''callback failed'')\<rparr>)"
  have "G (executeSwapAndBridge okSdk submittedThrowQuiet)"
    apply (subst run_wp)
    apply (simp add: run_simps submittedThrowQuiet_def nativeParams_def example_simps)
    apply (simp add: G_def state_simps)
    done
  then show ?thesis by (simp add: G_def)
qed

theorem C9_callback_throw_counterexample:
  "onProgressHandler submittedThrowQuiet
       (SwapAndBridgeTxPending ''0xDepositTx'' (SwapAndBridgeMeta exampleData))
     = Inl (Error ''callback failed'')
   \<and> delivered (snd (executeSwapAndBridge okSdk submittedThrowQuiet))
     = [SwapAndBridgeTxPending ''0xDepositTx'' (SwapAndBridgeMeta exampleData),
        ProgressError (SwapAndBridgeTxPending ''0xDepositTx'' (SwapAndBridgeMeta exampleData))
          (Error ''callback failed'') (SwapAndBridgeMeta exampleData)]
   \<and> fst (executeSwapAndBridge okSdk submittedThrowQuiet)
     = Inr \<lparr>depositId = None, swapAndBridgeTxReceipt = None, fillTxReceipt = None,
            error = Some (Error ''callback failed'')\<rparr>"
  using submittedThrowQuiet_run
  by (simp add: submittedThrowQuiet_def onProgressHandler_def throwOnSubmitted_def kind_def)

text \<open>With the default \<open>throwOnError\<close> the caught error is thrown again.\<close>

lemma submittedThrow_run:
  "delivered (snd (executeSwapAndBridge okSdk submittedThrow))
     = [SwapAndBridgeTxPending ''0xDepositTx'' (SwapAndBridgeMeta exampleData),
        ProgressError (SwapAndBridgeTxPending ''0xDepositTx'' (SwapAndBridgeMeta exampleData))
          (Error ''callback failed'') (SwapAndBridgeMeta exampleData)]"
proof -
  define G where "G = (\<lambda>r :: (JsError + ExecuteSwapAndBridgeResponse) \<times> RunState.
     delivered (snd r)
       = [SwapAndBridgeTxPending ''0xDepositTx'' (SwapAndBridgeMeta exampleData),
          ProgressError (SwapAndBridgeTxPending ''0xDepositTx'' (SwapAndBridgeMeta exampleData))
            (Error ''callback failed'') (SwapAndBridgeMeta exampleData)])"
  have "G (executeSwapAndBridge okSdk submittedThrow)"
    apply (subst run_wp)
    apply (simp add: run_simps submittedThrow_def nativeParams_def example_simps)
    apply (simp add: G_def state_simps)
    done
  then show ?thesis by (simp add: G_def)
qed

theorem C9_callback_throw_witness:
  "onProgressHandler submittedThrow
       (SwapAndBridgeTxPending ''0xDepositTx'' (SwapAndBridgeMeta exampleData))
     = Inl (Error ''callback failed'')
   \<and> delivered (snd (executeSwapAndBridge okSdk submittedThrow))
     = [SwapAndBridgeTxPending ''0xDepositTx'' (SwapAndBridgeMeta exampleData),
        ProgressError (SwapAndBridgeTxPending ''0xDepositTx'' (SwapAndBridgeMeta exampleData))
          (Error ''callback failed'') (SwapAndBridgeMeta exampleData)]
   \<and> fst (executeSwapAndBridge okSdk submittedThrow) = Inl (Error ''callback failed'')"
  using C9_callback_throw [of okSdk submittedThrow] submittedThrow_run
  by (simp add: submittedThrow_def nativeParams_def okParams_fields onProgressHandler_def
       throwOnSubmitted_def throwOnErrorOf_def kind_def)

section \<open>The first event\<close>

text \<open>
  C10. In every run, no event with status idle is handed to the progress callback:
  idle is the status of the initial value of \<open>currentProgress\<close> only. Every run
  delivers an event, and the first one is approve:txPending, swapAndBridge:txPending
  or an error event.
\<close>

theorem C10_no_idle_event:
  "status (currentProgress initialState) = StatusIdle
   \<and> (\<forall>ev \<in> set (delivered (snd (executeSwapAndBridge sdk p))). status ev \<noteq> StatusIdle)
   \<and> delivered (snd (executeSwapAndBridge sdk p)) \<noteq> []
   \<and> (kind (hd (delivered (snd (executeSwapAndBridge sdk p)))) = (StepApprove, StatusTxPending)
      \<or> kind (hd (delivered (snd (executeSwapAndBridge sdk p))))
           = (StepSwapAndBridge, StatusTxPending)
      \<or> status (hd (delivered (snd (executeSwapAndBridge sdk p)))) = StatusError)"
proof -
  define G where "G = (\<lambda>r :: (JsError + ExecuteSwapAndBridgeResponse) \<times> RunState.
     (\<forall>ev \<in> set (delivered (snd r)). status ev \<noteq> StatusIdle)
     \<and> delivered (snd r) \<noteq> []
     \<and> (kind (hd (delivered (snd r))) = (StepApprove, StatusTxPending)
        \<or> kind (hd (delivered (snd r))) = (StepSwapAndBridge, StatusTxPending)
        \<or> status (hd (delivered (snd r))) = StatusError))"
  have "G (executeSwapAndBridge sdk p)"
    apply (subst run_wp)
    apply (simp add: run_simps split del: if_split)
    apply (simp add: G_def state_simps kind_def split del: if_split)
    done
  then show ?thesis by (simp add: G_def initialState_def)
qed

lemma ok_run_first:
  "kind (hd (delivered (snd (executeSwapAndBridge okSdk okParams))))
     = (StepApprove, StatusTxPending)"
proof -
  define G where "G = (\<lambda>r :: (JsError + ExecuteSwapAndBridgeResponse) \<times> RunState.
     kind (hd (delivered (snd r))) = (StepApprove, StatusTxPending))"
  have "G (executeSwapAndBridge okSdk okParams)"
    apply (subst run_wp)
    apply (simp add: run_simps example_simps)
    apply (simp add: G_def state_simps kind_def)
    done
  then show ?thesis by (simp add: G_def)
qed

theorem C10_no_idle_event_witness:
  "delivered (snd (executeSwapAndBridge okSdk okParams)) \<noteq> []
   \<and> kind (hd (delivered (snd (executeSwapAndBridge okSdk okParams))))
       = (StepApprove, StatusTxPending)
   \<and> status (hd (delivered (snd (executeSwapAndBridge okSdk okParams)))) \<noteq> StatusIdle"
  using C10_no_idle_event [of okSdk okParams] ok_run_first
  by (simp add: kind_def)

end
